theory Spec2Isabelle
  imports Main "HOL-Library.AList"
begin

section \<open>Data model of \<open>ssp_esri_pydantic.py\<close>\<close>

text \<open>
  The module builds, from the metadata of a geodatabase table, the arguments of a
  validation model: one pair (type annotation, field description) per table field.
  The metadata objects come from the geodatabase library, the pairs go to the
  validation library. Both libraries are outside the module; the model below keeps
  the attributes the module reads and the arguments it passes on.
\<close>

subsection \<open>Values, numbers and errors\<close>

text \<open>Scalar codes: coded-value domain keys, subtype codes, literal members.\<close>

datatype pyval = IntV int | StrV string

text \<open>
  Numeric bounds. \<open>NInt i\<close> is the integer literal \<open>i\<close>; \<open>NFloat m e\<close> is the decimal
  literal \<open>m * 10 ^ e\<close> as it is written in the source (\<open>-3.4e38\<close> is \<open>NFloat (-34) 37\<close>).
  \<open>NegInf\<close> and \<open>PosInf\<close> are the two infinite floats: the literals \<open>-2.2e308\<close> and
  \<open>1.8e308\<close> of the source lie beyond the largest finite double and evaluate to them.
  Bounds are only passed on, never computed with.
\<close>

datatype number = NInt int | NFloat int int | NegInf | PosInf

text \<open>
  The exceptions the module's own statements can raise, \<open>ExternalError\<close> for an
  exception raised inside a metadata read of the geodatabase library, and the two
  kinds of exception raised when the union of the subtype models is built.
\<close>

datatype error =
    KeyError string
  | AttributeError
  | UnboundLocalError
  | ExternalError string
  | TypeError
  | PydanticUserError

datatype log_entry = LogWarning string | LogError error

subsection \<open>Metadata read from the geodatabase\<close>

text \<open>
  Class \<open>_Domain\<close>; the attributes \<open>description\<close>, \<open>mergePolicy\<close>, \<open>owner\<close> and
  \<open>splitPolicy\<close> are never read by the module and are left out. \<open>codedValues\<close> is a
  dictionary, kept as an association list in iteration order.
\<close>

record domain =
  d_codedValues :: "(pyval \<times> string) list option"
  d_domainType :: string
  d_name :: string
  d_range :: "number option \<times> number option"
  d_type :: string

text \<open>A field object of the table description.\<close>

record field =
  f_name :: string
  f_type :: string
  f_length :: int
  f_editable :: bool
  f_isNullable :: bool
  f_domain :: string

text \<open>
  The result of \<open>Describe\<close>: \<open>shapeFieldName\<close> may be missing from the dictionary
  (\<open>None\<close>), \<open>subtypeFieldName\<close> is the empty string for a table without subtypes.
\<close>

record desc =
  desc_fields :: "field list"
  shapeFieldName :: "string option"
  subtypeFieldName :: string

text \<open>
  One entry of \<open>ListSubtypes\<close>: the subtype's name and its \<open>FieldValues\<close> dictionary,
  field name to (default value, domain object or None), in iteration order.
\<close>

record subtype_dict =
  st_Name :: string
  st_FieldValues :: "(string \<times> (pyval option \<times> domain option)) list"

text \<open>The three metadata reads; each may raise.\<close>

record world =
  ListDomains :: "string \<Rightarrow> error + domain list"
  Describe :: "string \<Rightarrow> error + desc"
  ListSubtypes :: "string \<Rightarrow> error + (pyval \<times> subtype_dict) list"

subsection \<open>What is handed to the validation library\<close>

datatype pytype = Base64Bytes | Datetime | PyFloat | GEOMETRY | UUID | PyInt | PyStr

datatype annotation =
    Plain pytype
  | AnyT
  | Literal "pyval list"
  | Optional annotation

text \<open>
  The default of a field description: none given (\<open>Field()\<close>), the factory
  \<open>lambda: None\<close>, or a plain default value.
\<close>

datatype default_spec = NoDefault | DefaultFactoryNone | DefaultValue pyval

record field_info =
  fi_default :: default_spec
  fi_max_length :: "int option"
  fi_ge :: "number option"
  fi_le :: "number option"

type_synonym pydantic_tuple = "annotation \<times> field_info"

text \<open>
  \<open>create_model_params\<close> is a dictionary: assigning to a key that is present replaces
  its value in place, a new key goes to the end. \<^const>\<open>AList.update\<close> does the same.
\<close>

type_synonym params = "(string \<times> pydantic_tuple) list"

text \<open>A model made by \<open>create_model\<close> with base \<open>_NoExtras\<close> (unknown keys forbidden).\<close>

datatype model = Model (model_name: string) (model_params: params)

text \<open>
  The adapter returned: over one model for a table without subtypes, over the union
  of the subtype models, dispatched on the named discriminator field, otherwise.
\<close>

datatype adapter = TableAdapter model | UnionAdapter "model list" string

fun adapter_models :: "adapter \<Rightarrow> model list" where
  "adapter_models (TableAdapter m) = [m]"
| "adapter_models (UnionAdapter ms n) = ms"

text \<open>
  How the validation library reads a pair. A field is required exactly when its
  description has neither a default nor a default factory. An annotation admits the
  null value when it is \<open>Optional\<close> or \<open>Any\<close>; a plain scalar type does not, and a
  literal set does not (codes are scalars, never null, in this model).
\<close>

definition node_required :: "pydantic_tuple \<Rightarrow> bool" where
  "node_required t = (fi_default (snd t) = NoDefault)"

fun accepts_null :: "annotation \<Rightarrow> bool" where
  "accepts_null (Plain T) = False"
| "accepts_null AnyT = True"
| "accepts_null (Literal vs) = False"
| "accepts_null (Optional a) = True"

definition node_nullable :: "pydantic_tuple \<Rightarrow> bool" where
  "node_nullable t = accepts_null (fst t)"

section \<open>Library functions the module calls\<close>

text \<open>
  \<open>str.casefold\<close> on ASCII names: the letters A to Z go to lower case, every other
  character stays. (Characters are bytes here; the folding of non-ASCII letters is not
  modelled.)
\<close>

definition casefold_char :: "char \<Rightarrow> char" where
  "casefold_char c =
     (case map_of (zip ''ABCDEFGHIJKLMNOPQRSTUVWXYZ'' ''abcdefghijklmnopqrstuvwxyz'') c of
        None \<Rightarrow> c
      | Some l \<Rightarrow> l)"

definition casefold :: "string \<Rightarrow> string" where
  "casefold s = map casefold_char s"

text \<open>\<open>os.path.basename\<close> and \<open>os.path.dirname\<close>, with the separator \<open>/\<close>.\<close>

definition basename :: "string \<Rightarrow> string" where
  "basename p = rev (takeWhile (\<lambda>c. c \<noteq> CHR ''/'') (rev p))"

definition dirname :: "string \<Rightarrow> string" where
  "dirname p =
     (let head = rev (dropWhile (\<lambda>c. c \<noteq> CHR ''/'') (rev p))
      in if head \<noteq> [] \<and> \<not> list_all (\<lambda>c. c = CHR ''/'') head
         then rev (dropWhile (\<lambda>c. c = CHR ''/'') (rev head))
         else head)"

section \<open>The module's tables\<close>

definition field_type_to_pydantic_dict :: "string \<Rightarrow> pytype option" where
  "field_type_to_pydantic_dict = map_of
     [(''Blob'', Base64Bytes),
      (''Date'', Datetime),
      (''Double'', PyFloat),
      (''Geometry'', GEOMETRY),
      (''GlobalID'', UUID),
      (''Guid'', UUID),
      (''Integer'', PyInt),
      (''SmallInteger'', PyInt),
      (''Long'', PyInt),
      (''Short'', PyInt),
      (''OID'', PyInt),
      (''Raster'', Base64Bytes),
      (''Single'', PyFloat),
      (''String'', PyStr),
      (''Text'', PyStr),
      (''Float'', PyFloat)]"

definition field_type_min_max :: "string \<Rightarrow> (number \<times> number) option" where
  "field_type_min_max = map_of
     [(''SmallInteger'', (NInt (-32768), NInt 32767)),
      (''Short'', (NInt (-32768), NInt 32767)),
      (''SHORT'', (NInt (-32768), NInt 32767)),
      (''Integer'', (NInt (-2147483648), NInt 2147483647)),
      (''Long'', (NInt (-2147483648), NInt 2147483647)),
      (''LONG'', (NInt (-2147483648), NInt 2147483647)),
      (''Single'', (NFloat (-34) 37, NFloat 12 37)),
      (''SINGLE'', (NFloat (-34) 37, NFloat 12 37)),
      (''Float'', (NFloat (-34) 37, NFloat 12 37)),
      (''FLOAT'', (NFloat (-34) 37, NFloat 12 37)),
      (''Double'', (NegInf, PosInf)),
      (''DOUBLE'', (NegInf, PosInf)),
      (''BigInteger'', (NInt (-9007199254740991), NInt 9007199254740991)),
      (''BIGINTEGER'', (NInt (-9007199254740991), NInt 9007199254740991))]"

section \<open>\<open>make_domain_tuple\<close>\<close>

text \<open>
  A function of the module returns the log entries it wrote and either the exception
  it raised (\<open>Inl\<close>) or its value (\<open>Inr\<close>). The Python value \<open>None\<close> of
  \<open>make_domain_tuple\<close> is \<open>Inr None\<close>.
\<close>

type_synonym 'a result = "log_entry list \<times> (error + 'a)"

definition Field :: "default_spec \<Rightarrow> int option \<Rightarrow> number option \<Rightarrow> number option \<Rightarrow> field_info" where
  "Field d ml lo hi = \<lparr>fi_default = d, fi_max_length = ml, fi_ge = lo, fi_le = hi\<rparr>"

definition make_domain_tuple ::
  "domain list \<Rightarrow> string \<Rightarrow> bool \<Rightarrow> bool \<Rightarrow> int option \<Rightarrow> pydantic_tuple option result" where
  "make_domain_tuple domains_list domain_name nullable insert_explicit max_length =
     (case find (\<lambda>d. d_name d = domain_name) domains_list of
        None \<Rightarrow> ([LogWarning (''Could not find domain named :'' @ domain_name)], Inr None)
      | Some the_domain \<Rightarrow>
          if d_domainType the_domain = ''CodedValue'' then
            (case d_codedValues the_domain of
               None \<Rightarrow> ([], Inl AttributeError)
             | Some cv \<Rightarrow>
                 (let domain_codes = map fst cv in
                  if length domain_codes = 0 then ([], Inr None)
                  else if \<not> nullable \<and> insert_explicit then
                    (if max_length = None
                     then ([], Inr (Some (Literal domain_codes, Field NoDefault None None None)))
                     else ([], Inr (Some (Literal domain_codes, Field NoDefault max_length None None))))
                  else
                    (if max_length = None
                     then ([], Inr (Some (Optional (Literal domain_codes),
                                          Field DefaultFactoryNone None None None)))
                     else ([], Inr (Some (Optional (Literal domain_codes),
                                          Field DefaultFactoryNone max_length None None))))))
          else
            (case d_range the_domain of (min_val, max_val) \<Rightarrow>
               (case field_type_to_pydantic_dict (d_type the_domain) of
                  None \<Rightarrow> ([], Inl (KeyError (d_type the_domain)))
                | Some pydantic_field_type \<Rightarrow>
                    if \<not> nullable \<and> insert_explicit then
                      ([], Inr (Some (Plain pydantic_field_type,
                                      Field NoDefault None min_val max_val)))
                    else
                      ([], Inr (Some (Optional (Plain pydantic_field_type),
                                      Field DefaultFactoryNone None min_val max_val))))))"

section \<open>\<open>make_table_adapter\<close>\<close>

text \<open>The pair stored for the shape field: \<open>(Any, Field())\<close>.\<close>

definition shape_tuple :: pydantic_tuple where
  "shape_tuple = (AnyT, Field NoDefault None None None)"

text \<open>\<open>shape_field_name is not None and field.name.casefold() == shape_field_name.casefold()\<close>\<close>

definition is_shape_field :: "string option \<Rightarrow> field \<Rightarrow> bool" where
  "is_shape_field shape_field_name field =
     (case shape_field_name of
        None \<Rightarrow> False
      | Some s \<Rightarrow> casefold (f_name field) = casefold s)"

text \<open>
  The pair built when no domain pair was produced: the field's own type with the
  static bounds of \<open>field_type_min_max\<close> and the given length bound.
\<close>

definition plain_tuple :: "field \<Rightarrow> pytype \<Rightarrow> bool \<Rightarrow> int option \<Rightarrow> pydantic_tuple" where
  "plain_tuple field pydantic_field_type insert_explicit max_length =
     (let (ge, le) = (case field_type_min_max (f_type field) of
                        None \<Rightarrow> (None, None)
                      | Some (lo, hi) \<Rightarrow> (Some lo, Some hi))
      in if \<not> f_isNullable field \<and> insert_explicit
         then (Plain pydantic_field_type, Field NoDefault max_length ge le)
         else (Optional (Plain pydantic_field_type), Field DefaultFactoryNone max_length ge le))"

text \<open>\<open>max_length\<close> as the loops set it: the field's length for type \<open>String\<close> only.\<close>

definition field_max_length :: "field \<Rightarrow> int option" where
  "field_max_length field = (if f_type field = ''String'' then Some (f_length field) else None)"

text \<open>The domain name a field is looked up under, without subtypes (source lines 271 to 274).\<close>

definition flat_domain_name :: "field \<Rightarrow> string option" where
  "flat_domain_name field = (if f_domain field \<noteq> '''' then Some (f_domain field) else None)"

text \<open>
  The same inside a subtype (source lines 196 to 201): the subtype's domain object for
  the field, when there is one, goes first.
\<close>

definition subtype_domain_name :: "domain option \<Rightarrow> field \<Rightarrow> string option" where
  "subtype_domain_name subtype_domain field =
     (case subtype_domain of
        Some d \<Rightarrow> Some (d_name d)
      | None \<Rightarrow> if f_domain field \<noteq> '''' then Some (f_domain field) else None)"

text \<open>
  \<open>pydantic_tuple = None\<close>, then the call of \<open>make_domain_tuple\<close> when there is a
  domain name (source lines 203 to 211 and 276 to 284).
\<close>

definition domain_tuple_for ::
  "domain list \<Rightarrow> bool \<Rightarrow> field \<Rightarrow> string option \<Rightarrow> pydantic_tuple option result" where
  "domain_tuple_for domains_list insert_explicit field domain_name =
     (case domain_name of
        None \<Rightarrow> ([], Inr None)
      | Some n \<Rightarrow> make_domain_tuple domains_list n (f_isNullable field) insert_explicit
                   (field_max_length field))"

text \<open>The pair pinned to the subtype's code: \<open>(Literal[subtype_code], subtype_code)\<close>.\<close>

definition pinned_tuple :: "pyval \<Rightarrow> pydantic_tuple" where
  "pinned_tuple subtype_code =
     (Literal [subtype_code], Field (DefaultValue subtype_code) None None None)"

text \<open>
  The body of the field loop of a table without subtypes (source lines 252 to 309).
  \<open>Inr None\<close> is \<open>continue\<close>; \<open>Inr (Some (k, t))\<close> is the assignment
  \<open>create_model_params[k] = t\<close>. The type lookup comes first, before the two
  \<open>continue\<close> tests.
\<close>

definition flat_field_step ::
  "domain list \<Rightarrow> bool \<Rightarrow> string option \<Rightarrow> field \<Rightarrow> (string \<times> pydantic_tuple) option result" where
  "flat_field_step domains_list insert_explicit shape_field_name field =
     (case field_type_to_pydantic_dict (f_type field) of
        None \<Rightarrow> ([], Inl (KeyError (f_type field)))
      | Some pydantic_field_type \<Rightarrow>
          if is_shape_field shape_field_name field then ([], Inr None)
          else if \<not> f_editable field then ([], Inr None)
          else
            (case domain_tuple_for domains_list insert_explicit field (flat_domain_name field) of
               (log, Inl e) \<Rightarrow> (log, Inl e)
             | (log, Inr (Some pydantic_tuple)) \<Rightarrow>
                 (log, Inr (Some (f_name field, pydantic_tuple)))
             | (log, Inr None) \<Rightarrow>
                 (log, Inr (Some (f_name field,
                    plain_tuple field pydantic_field_type insert_explicit
                      (field_max_length field))))))"

text \<open>
  The body of the field loop of one subtype (source lines 175 to 233), for one pair
  of the zip. \<open>subtype_field_name\<close> is \<open>None\<close> while the variable is unbound: no
  field name matched \<open>subtypeFieldName\<close> in the search of lines 157 to 160.
\<close>

definition subtype_field_step ::
  "domain list \<Rightarrow> bool \<Rightarrow> string option \<Rightarrow> string option \<Rightarrow> pyval \<Rightarrow>
   (pyval option \<times> domain option) \<Rightarrow> field \<Rightarrow> (string \<times> pydantic_tuple) option result" where
  "subtype_field_step domains_list insert_explicit shape_field_name subtype_field_name
     subtype_code st_tuple field =
     (case st_tuple of (subtype_default, subtype_domain) \<Rightarrow>
      (case field_type_to_pydantic_dict (f_type field) of
        None \<Rightarrow> ([], Inl (KeyError (f_type field)))
      | Some pydantic_field_type \<Rightarrow>
          if is_shape_field shape_field_name field then ([], Inr None)
          else if \<not> f_editable field then ([], Inr None)
          else
            (case domain_tuple_for domains_list insert_explicit field
                    (subtype_domain_name subtype_domain field) of
               (log, Inl e) \<Rightarrow> (log, Inl e)
             | (log, Inr (Some pydantic_tuple)) \<Rightarrow>
                 (log, Inr (Some (f_name field, pydantic_tuple)))
             | (log, Inr None) \<Rightarrow>
                 (case subtype_field_name of
                    None \<Rightarrow> (log, Inl UnboundLocalError)
                  | Some n \<Rightarrow>
                      if f_name field = n
                      then (log, Inr (Some (f_name field, pinned_tuple subtype_code)))
                      else (log, Inr (Some (f_name field,
                              plain_tuple field pydantic_field_type insert_explicit
                                (field_max_length field))))))))"

text \<open>Running a loop body over a list: the first exception ends the loop.\<close>

definition prepend_log :: "log_entry list \<Rightarrow> 'a result \<Rightarrow> 'a result" where
  "prepend_log l x = (l @ fst x, snd x)"

fun fields_loop ::
  "('x \<Rightarrow> (string \<times> pydantic_tuple) option result) \<Rightarrow> 'x list \<Rightarrow> params \<Rightarrow> params result" where
  "fields_loop step [] create_model_params = ([], Inr create_model_params)"
| "fields_loop step (x # xs) create_model_params =
     (case step x of
        (log, Inl e) \<Rightarrow> (log, Inl e)
      | (log, Inr None) \<Rightarrow> prepend_log log (fields_loop step xs create_model_params)
      | (log, Inr (Some (k, t))) \<Rightarrow>
          prepend_log log (fields_loop step xs (AList.update k t create_model_params)))"

text \<open>
  The dictionary a model starts from: empty, or holding the shape field's pair
  (source lines 164 to 171 and 245 to 250).
\<close>

definition initial_params :: "string option \<Rightarrow> params" where
  "initial_params shape_field_name =
     (case shape_field_name of
        None \<Rightarrow> []
      | Some s \<Rightarrow> AList.update s shape_tuple [])"

text \<open>The zip of source line 174: the values of \<open>FieldValues\<close> against the field list.\<close>

definition st_fld_zip :: "subtype_dict \<Rightarrow> field list \<Rightarrow> ((pyval option \<times> domain option) \<times> field) list" where
  "st_fld_zip subtype_dict flds = zip (map snd (st_FieldValues subtype_dict)) flds"

text \<open>One iteration of the loop over the subtypes (source lines 163 to 237).\<close>

definition subtype_model ::
  "string \<Rightarrow> domain list \<Rightarrow> bool \<Rightarrow> string option \<Rightarrow> string option \<Rightarrow> field list \<Rightarrow>
   pyval \<times> subtype_dict \<Rightarrow> model result" where
  "subtype_model table_name domains_list insert_explicit shape_field_name subtype_field_name
     flds item =
     (case item of (subtype_code, subtype_dict) \<Rightarrow>
        (let model_name = table_name @ ''-'' @ st_Name subtype_dict in
         case fields_loop
                (\<lambda>(st_tuple, field). subtype_field_step domains_list insert_explicit
                    shape_field_name subtype_field_name subtype_code st_tuple field)
                (st_fld_zip subtype_dict flds)
                (initial_params shape_field_name) of
           (log, Inl e) \<Rightarrow> (log, Inl e)
         | (log, Inr create_model_params) \<Rightarrow> (log, Inr (Model model_name create_model_params))))"

fun subtypes_loop :: "(pyval \<times> subtype_dict \<Rightarrow> model result) \<Rightarrow> (pyval \<times> subtype_dict) list \<Rightarrow>
    model list \<Rightarrow> model list result" where
  "subtypes_loop build [] subtype_models = ([], Inr subtype_models)"
| "subtypes_loop build (item # items) subtype_models =
     (case build item of
        (log, Inl e) \<Rightarrow> (log, Inl e)
      | (log, Inr m) \<Rightarrow> prepend_log log (subtypes_loop build items (subtype_models @ [m])))"

text \<open>The model of a table without subtypes (source lines 245 to 312).\<close>

definition flat_model ::
  "string \<Rightarrow> domain list \<Rightarrow> bool \<Rightarrow> string option \<Rightarrow> field list \<Rightarrow> model result" where
  "flat_model table_name domains_list insert_explicit shape_field_name flds =
     (case fields_loop (flat_field_step domains_list insert_explicit shape_field_name) flds
             (initial_params shape_field_name) of
        (log, Inl e) \<Rightarrow> (log, Inl e)
      | (log, Inr create_model_params) \<Rightarrow> (log, Inr (Model table_name create_model_params)))"

text \<open>
  The adapter over the subtype models (source lines 238 to 241):
  \<open>TypeAdapter(Annotated[Union[tuple(subtype_models)], Field(discriminator=subtype_field_name)])\<close>.
  The calls go into the typing and validation libraries. Of their behaviour the model
  keeps the ways to raise that depend on what the loops built, in the order in which
  the expression is evaluated:
  \<^item> the union of an empty tuple of models raises \<open>TypeError\<close>;
  \<^item> reading \<open>subtype_field_name\<close> while it is unbound raises \<open>UnboundLocalError\<close>;
  \<^item> every model, in turn, must have the discriminator field, annotated with a
    literal set (a default on the field does not matter); otherwise
    \<open>PydanticUserError\<close>;
  \<^item> a value of the discriminator may belong to one model only; a value met again in
    a later model raises \<open>TypeError\<close>.
  Other failures inside the libraries (in \<open>create_model\<close>, say) are not modelled.
\<close>

fun literal_values :: "annotation \<Rightarrow> pyval list option" where
  "literal_values (Literal vs) = Some vs"
| "literal_values (Plain T) = None"
| "literal_values AnyT = None"
| "literal_values (Optional a) = None"

definition discriminator_values :: "string \<Rightarrow> model \<Rightarrow> error + pyval list" where
  "discriminator_values n m =
     (case map_of (model_params m) n of
        None \<Rightarrow> Inl PydanticUserError
      | Some t \<Rightarrow>
          (case literal_values (fst t) of
             None \<Rightarrow> Inl PydanticUserError
           | Some vs \<Rightarrow> Inr vs))"

fun tagged_choices :: "string \<Rightarrow> model list \<Rightarrow> pyval list \<Rightarrow> error + unit" where
  "tagged_choices n [] seen = Inr ()"
| "tagged_choices n (m # ms) seen =
     (case discriminator_values n m of
        Inl e \<Rightarrow> Inl e
      | Inr vs \<Rightarrow>
          if list_ex (\<lambda>v. v \<in> set seen) vs then Inl TypeError
          else tagged_choices n ms (seen @ vs))"

definition discriminated_union :: "model list \<Rightarrow> string option \<Rightarrow> error + adapter" where
  "discriminated_union subtype_models subtype_field_name =
     (if subtype_models = [] then Inl TypeError
      else case subtype_field_name of
             None \<Rightarrow> Inl UnboundLocalError
           | Some n \<Rightarrow>
               (case tagged_choices n subtype_models [] of
                  Inl e \<Rightarrow> Inl e
                | Inr u \<Rightarrow> Inr (UnionAdapter subtype_models n)))"

text \<open>The \<open>try\<close> block of \<open>make_table_adapter\<close> (source lines 146 to 313).\<close>

definition make_table_adapter_try :: "world \<Rightarrow> string \<Rightarrow> bool \<Rightarrow> adapter result" where
  "make_table_adapter_try w table_path insert_explicit =
     (let table_name = basename table_path;
          db_path = dirname table_path
      in case ListDomains w db_path of
           Inl e \<Rightarrow> ([], Inl e)
         | Inr domains_list \<Rightarrow>
        (case Describe w table_path of
           Inl e \<Rightarrow> ([], Inl e)
         | Inr desc \<Rightarrow>
        (let shape_field_name = shapeFieldName desc in
         if subtypeFieldName desc \<noteq> '''' then
           (let subtype_field_name =
                  find (\<lambda>n. casefold n = casefold (subtypeFieldName desc))
                       (map f_name (desc_fields desc))
            in case ListSubtypes w table_path of
                 Inl e \<Rightarrow> ([], Inl e)
               | Inr subtypes_dict \<Rightarrow>
              (case subtypes_loop
                      (subtype_model table_name domains_list insert_explicit shape_field_name
                         subtype_field_name (desc_fields desc))
                      subtypes_dict [] of
                 (log, Inl e) \<Rightarrow> (log, Inl e)
               | (log, Inr subtype_models) \<Rightarrow>
                   (log, discriminated_union subtype_models subtype_field_name)))
         else
           (case flat_model table_name domains_list insert_explicit shape_field_name
                   (desc_fields desc) of
              (log, Inl e) \<Rightarrow> (log, Inl e)
            | (log, Inr m) \<Rightarrow> (log, Inr (TableAdapter m))))))"

text \<open>
  \<open>make_table_adapter\<close>: the handler \<open>except Exception\<close> logs the exception and the
  function then ends without a \<open>return\<close>, so the caller gets \<open>None\<close>.
\<close>

definition make_table_adapter :: "world \<Rightarrow> string \<Rightarrow> bool \<Rightarrow> log_entry list \<times> adapter option" where
  "make_table_adapter w table_path insert_explicit =
     (case make_table_adapter_try w table_path insert_explicit of
        (log, Inl ex) \<Rightarrow> (log @ [LogError ex], None)
      | (log, Inr table_model) \<Rightarrow> (log, Some table_model))"

section \<open>Example tables\<close>

text \<open>Concrete metadata on which the theorems below are evaluated.\<close>

definition table_world :: "domain list \<Rightarrow> desc \<Rightarrow> (pyval \<times> subtype_dict) list \<Rightarrow> world" where
  "table_world dl d sts =
     \<lparr>ListDomains = (\<lambda>p. Inr dl), Describe = (\<lambda>p. Inr d), ListSubtypes = (\<lambda>p. Inr sts)\<rparr>"

definition unreachable_world :: world where
  "unreachable_world =
     \<lparr>ListDomains = (\<lambda>p. Inl (ExternalError ''cannot open workspace'')),
      Describe = (\<lambda>p. Inl (ExternalError ''cannot open table'')),
      ListSubtypes = (\<lambda>p. Inl (ExternalError ''cannot open table''))\<rparr>"

definition example_field :: "string \<Rightarrow> string \<Rightarrow> int \<Rightarrow> bool \<Rightarrow> bool \<Rightarrow> string \<Rightarrow> field" where
  "example_field n t l e nu d =
     \<lparr>f_name = n, f_type = t, f_length = l, f_editable = e, f_isNullable = nu, f_domain = d\<rparr>"

definition type_codes :: domain where
  "type_codes = \<lparr>d_codedValues = Some [(IntV 1, ''Residential''), (IntV 2, ''Commercial'')],
     d_domainType = ''CodedValue'', d_name = ''TypeCodes'', d_range = (None, None),
     d_type = ''Long''\<rparr>"

definition percent :: domain where
  "percent = \<lparr>d_codedValues = None, d_domainType = ''Range'', d_name = ''Percent'',
     d_range = (Some (NInt 0), Some (NInt 100)), d_type = ''Short''\<rparr>"

definition no_codes :: domain where
  "no_codes = \<lparr>d_codedValues = Some [], d_domainType = ''CodedValue'', d_name = ''NoCodes'',
     d_range = (None, None), d_type = ''Long''\<rparr>"

definition example_domains :: "domain list" where
  "example_domains = [type_codes, percent, no_codes]"

definition parcels_path :: string where
  "parcels_path = ''/data/city.gdb/parcels''"

text \<open>A table without subtypes that declares a field of a type the type table lacks.\<close>

definition bigint_table :: desc where
  "bigint_table =
     \<lparr>desc_fields = [example_field ''OBJECTID'' ''OID'' 4 False False '''',
                     example_field ''PARCEL_NO'' ''BigInteger'' 8 True False ''''],
      shapeFieldName = None, subtypeFieldName = ''''\<rparr>"

text \<open>A feature class without subtypes; in the second one the shape field is not editable.\<close>

definition shape_table :: desc where
  "shape_table =
     \<lparr>desc_fields = [example_field ''OBJECTID'' ''OID'' 4 False False '''',
                     example_field ''Shape'' ''Geometry'' 0 True True '''',
                     example_field ''NAME'' ''String'' 10 True False ''''],
      shapeFieldName = Some ''Shape'', subtypeFieldName = ''''\<rparr>"

definition locked_shape_table :: desc where
  "locked_shape_table =
     \<lparr>desc_fields = [example_field ''OBJECTID'' ''OID'' 4 False False '''',
                     example_field ''Shape'' ''Geometry'' 0 False True '''',
                     example_field ''NAME'' ''String'' 10 True False ''''],
      shapeFieldName = Some ''Shape'', subtypeFieldName = ''''\<rparr>"

text \<open>
  A table with subtypes whose subtype field \<open>TYPE\<close> carries a coded-value domain, and
  its two subtypes; the first one overrides the domain of \<open>COVER\<close>.
\<close>

definition zoned_table :: desc where
  "zoned_table =
     \<lparr>desc_fields = [example_field ''OBJECTID'' ''OID'' 4 False False '''',
                     example_field ''TYPE'' ''Integer'' 4 True False ''TypeCodes'',
                     example_field ''COVER'' ''Integer'' 4 True True ''''],
      shapeFieldName = None, subtypeFieldName = ''TYPE''\<rparr>"

definition zoned_subtypes :: "(pyval \<times> subtype_dict) list" where
  "zoned_subtypes =
     [(IntV 1, \<lparr>st_Name = ''Residential'',
                st_FieldValues = [(''OBJECTID'', (None, None)),
                                  (''TYPE'', (Some (IntV 1), None)),
                                  (''COVER'', (None, Some percent))]\<rparr>),
      (IntV 2, \<lparr>st_Name = ''Commercial'',
                st_FieldValues = [(''OBJECTID'', (None, None)),
                                  (''TYPE'', (Some (IntV 2), None)),
                                  (''COVER'', (None, None))]\<rparr>)]"

text \<open>
  The same table with a field of a type the type table lacks, reached by the zip of
  each subtype.
\<close>

definition zoned_bigint_table :: desc where
  "zoned_bigint_table =
     \<lparr>desc_fields = [example_field ''OBJECTID'' ''OID'' 4 False False '''',
                     example_field ''TYPE'' ''Integer'' 4 True False '''',
                     example_field ''PARCEL_NO'' ''BigInteger'' 8 True False ''''],
      shapeFieldName = None, subtypeFieldName = ''TYPE''\<rparr>"

definition zoned_bigint_subtypes :: "(pyval \<times> subtype_dict) list" where
  "zoned_bigint_subtypes =
     [(IntV 1, \<lparr>st_Name = ''Residential'',
                st_FieldValues = [(''OBJECTID'', (None, None)),
                                  (''TYPE'', (Some (IntV 1), None)),
                                  (''PARCEL_NO'', (None, None))]\<rparr>)]"

text \<open>
  Two subtype entries with the same values in the same order under different keys,
  and a field list in the order \<open>TYPE\<close>, \<open>COVER\<close>.
\<close>

definition swapped_subtype :: subtype_dict where
  "swapped_subtype =
     \<lparr>st_Name = ''Residential'',
      st_FieldValues = [(''COVER'', (None, Some percent)),
                        (''TYPE'', (Some (IntV 1), None))]\<rparr>"

definition renamed_subtype :: subtype_dict where
  "renamed_subtype =
     \<lparr>st_Name = ''Residential'',
      st_FieldValues = [(''TYPE'', (None, Some percent)),
                        (''COVER'', (Some (IntV 1), None))]\<rparr>"

definition two_fields :: "field list" where
  "two_fields = [example_field ''TYPE'' ''Integer'' 4 True False '''',
                 example_field ''COVER'' ''Integer'' 4 True True '''']"

section \<open>Properties of the loops\<close>

lemma snd_prepend_log [simp]: "snd (prepend_log l x) = snd x"
  by (simp add: prepend_log_def)

lemma fst_prepend_log [simp]: "fst (prepend_log l x) = l @ fst x"
  by (simp add: prepend_log_def)

lemma fields_loop_keys:
  "snd (fields_loop step xs ps) = Inr ps' \<Longrightarrow> k \<in> fst ` set ps' \<Longrightarrow>
     k \<in> fst ` set ps \<or> (\<exists>x \<in> set xs. \<exists>t. snd (step x) = Inr (Some (k, t)))"
proof (induction xs arbitrary: ps)
  case Nil
  then show ?case by simp
next
  case (Cons x xs)
  obtain l r where sx: "step x = (l, r)" by (cases "step x")
  show ?case
  proof (cases r)
    case (Inl e)
    with Cons.prems sx show ?thesis by simp
  next
    case (Inr opt)
    show ?thesis
    proof (cases opt)
      case None
      with Cons.prems sx Inr have "snd (fields_loop step xs ps) = Inr ps'" by simp
      from Cons.IH [OF this Cons.prems(2)] show ?thesis by auto
    next
      case (Some kt)
      obtain k' t' where kt: "kt = (k', t')" by (cases kt)
      with Cons.prems sx Inr Some
      have "snd (fields_loop step xs (AList.update k' t' ps)) = Inr ps'" by simp
      from Cons.IH [OF this Cons.prems(2)]
      have "k \<in> fst ` set (AList.update k' t' ps) \<or>
            (\<exists>x \<in> set xs. \<exists>t. snd (step x) = Inr (Some (k, t)))" .
      then show ?thesis
      proof
        assume "k \<in> fst ` set (AList.update k' t' ps)"
        then have "k = k' \<or> k \<in> fst ` set ps" by (simp add: AList.dom_update)
        then show ?thesis using sx Inr Some kt by auto
      next
        assume "\<exists>x \<in> set xs. \<exists>t. snd (step x) = Inr (Some (k, t))"
        then show ?thesis by auto
      qed
    qed
  qed
qed

lemma fields_loop_preserves:
  "snd (fields_loop step xs ps) = Inr ps' \<Longrightarrow> map_of ps s = Some v \<Longrightarrow>
   (\<And>x t. x \<in> set xs \<Longrightarrow> snd (step x) \<noteq> Inr (Some (s, t))) \<Longrightarrow>
   map_of ps' s = Some v"
proof (induction xs arbitrary: ps)
  case Nil
  then show ?case by simp
next
  case (Cons x xs)
  obtain l r where sx: "step x = (l, r)" by (cases "step x")
  have rest: "\<And>y t. y \<in> set xs \<Longrightarrow> snd (step y) \<noteq> Inr (Some (s, t))"
    using Cons.prems(3) by simp
  show ?case
  proof (cases r)
    case (Inl e)
    with Cons.prems sx show ?thesis by simp
  next
    case (Inr opt)
    show ?thesis
    proof (cases opt)
      case None
      with Cons.prems sx Inr have "snd (fields_loop step xs ps) = Inr ps'" by simp
      from Cons.IH [OF this Cons.prems(2) rest] show ?thesis .
    next
      case (Some kt)
      obtain k' t' where kt: "kt = (k', t')" by (cases kt)
      with Cons.prems sx Inr Some
      have run: "snd (fields_loop step xs (AList.update k' t' ps)) = Inr ps'" by simp
      have "k' \<noteq> s" using Cons.prems(3) [of x t'] sx Inr Some kt by auto
      then have "map_of (AList.update k' t' ps) s = Some v"
        using Cons.prems(2) by (simp add: AList.update_conv')
      from Cons.IH [OF run this rest] show ?thesis .
    qed
  qed
qed

lemma fields_loop_error:
  "x \<in> set xs \<Longrightarrow> snd (step x) = Inl e \<Longrightarrow> \<exists>e'. snd (fields_loop step xs ps) = Inl e'"
proof (induction xs arbitrary: ps)
  case Nil
  then show ?case by simp
next
  case (Cons y ys)
  obtain l r where sy: "step y = (l, r)" by (cases "step y")
  show ?case
  proof (cases r)
    case (Inl e0)
    with sy show ?thesis by simp
  next
    case (Inr opt)
    with Cons.prems sy have "x \<in> set ys" by auto
    from Cons.IH [OF this Cons.prems(2)] show ?thesis
      using sy Inr by (cases opt) (auto split: prod.splits)
  qed
qed

lemma subtypes_loop_models:
  "snd (subtypes_loop build items acc) = Inr ms \<Longrightarrow> m \<in> set ms \<Longrightarrow>
     m \<in> set acc \<or> (\<exists>item \<in> set items. snd (build item) = Inr m)"
proof (induction items arbitrary: acc)
  case Nil
  then show ?case by simp
next
  case (Cons item items)
  obtain l r where b: "build item = (l, r)" by (cases "build item")
  show ?case
  proof (cases r)
    case (Inl e)
    with Cons.prems b show ?thesis by simp
  next
    case (Inr m')
    with Cons.prems b have "snd (subtypes_loop build items (acc @ [m'])) = Inr ms" by simp
    from Cons.IH [OF this Cons.prems(2)] show ?thesis using b Inr by auto
  qed
qed

section \<open>Properties of the loop bodies\<close>

lemma make_domain_tuple_nullability:
  "snd (make_domain_tuple dl n nullable s ml) = Inr (Some t) \<Longrightarrow>
     (if \<not> nullable \<and> s
      then fi_default (snd t) = NoDefault \<and> \<not> accepts_null (fst t)
      else fi_default (snd t) = DefaultFactoryNone \<and> accepts_null (fst t))"
  by (auto simp: make_domain_tuple_def Field_def Let_def
           split: option.splits if_splits prod.splits)

lemma plain_tuple_nullability:
  "(if \<not> f_isNullable f \<and> s
    then fi_default (snd (plain_tuple f T s ml)) = NoDefault \<and>
         \<not> accepts_null (fst (plain_tuple f T s ml))
    else fi_default (snd (plain_tuple f T s ml)) = DefaultFactoryNone \<and>
         accepts_null (fst (plain_tuple f T s ml)))"
  by (auto simp: plain_tuple_def Field_def split: option.splits prod.splits)

lemma flat_field_step_cases:
  assumes "snd (flat_field_step dl s sfn f) = Inr (Some (k, t))"
  shows "k = f_name f \<and> f_editable f \<and> \<not> is_shape_field sfn f \<and>
         (\<exists>T. field_type_to_pydantic_dict (f_type f) = Some T \<and>
           (snd (domain_tuple_for dl s f (flat_domain_name f)) = Inr (Some t) \<or>
            snd (domain_tuple_for dl s f (flat_domain_name f)) = Inr None \<and>
            t = plain_tuple f T s (field_max_length f)))"
  using assms
  by (auto simp: flat_field_step_def split: option.splits if_splits prod.splits sum.splits)

lemma subtype_field_step_cases:
  assumes "snd (subtype_field_step dl s sfn stfn code st f) = Inr (Some (k, t))"
  shows "k = f_name f \<and> f_editable f \<and> \<not> is_shape_field sfn f \<and>
         (\<exists>T. field_type_to_pydantic_dict (f_type f) = Some T \<and>
           (snd (domain_tuple_for dl s f (subtype_domain_name (snd st) f)) = Inr (Some t) \<or>
            snd (domain_tuple_for dl s f (subtype_domain_name (snd st) f)) = Inr None \<and>
            (stfn = Some (f_name f) \<and> t = pinned_tuple code \<or>
             (\<exists>n. stfn = Some n \<and> n \<noteq> f_name f) \<and>
             t = plain_tuple f T s (field_max_length f))))"
  using assms
  by (auto simp: subtype_field_step_def split: option.splits if_splits prod.splits sum.splits)

lemma domain_tuple_for_nullability:
  "snd (domain_tuple_for dl s f dn) = Inr (Some t) \<Longrightarrow>
     (if \<not> f_isNullable f \<and> s
      then fi_default (snd t) = NoDefault \<and> \<not> accepts_null (fst t)
      else fi_default (snd t) = DefaultFactoryNone \<and> accepts_null (fst t))"
  by (cases dn) (auto simp: domain_tuple_for_def dest: make_domain_tuple_nullability)

lemmas ex_defs = example_field_def type_codes_def percent_def no_codes_def example_domains_def
  flat_field_step_def subtype_field_step_def field_type_to_pydantic_dict_def field_type_min_max_def
  is_shape_field_def domain_tuple_for_def flat_domain_name_def subtype_domain_name_def
  make_domain_tuple_def field_max_length_def plain_tuple_def Field_def pinned_tuple_def
  node_required_def node_nullable_def casefold_def casefold_char_def

lemma prepend_log_Pair [simp]: "prepend_log l (l', r) = (l @ l', r)"
  by (simp add: prepend_log_def)

lemma is_shape_field_domain_upd [simp]:
  "is_shape_field sfn (f\<lparr>f_domain := d\<rparr>) = is_shape_field sfn f"
  by (simp add: is_shape_field_def split: option.split)

lemma plain_tuple_domain_upd [simp]:
  "plain_tuple (f\<lparr>f_domain := d\<rparr>) T s ml = plain_tuple f T s ml"
  by (simp add: plain_tuple_def)

lemma field_max_length_domain_upd [simp]:
  "field_max_length (f\<lparr>f_domain := d\<rparr>) = field_max_length f"
  by (simp add: field_max_length_def)

lemma domain_tuple_for_no_name [simp]:
  "domain_tuple_for dl s f None = ([], Inr None)"
  by (simp add: domain_tuple_for_def)

lemma flat_domain_name_empty [simp]: "flat_domain_name (f\<lparr>f_domain := ''''\<rparr>) = None"
  by (simp add: flat_domain_name_def)

lemma subtype_domain_name_empty [simp]:
  "subtype_domain_name None (f\<lparr>f_domain := ''''\<rparr>) = None"
  by (simp add: subtype_domain_name_def)

lemma flat_step_no_pair:
  assumes "domain_tuple_for dl s f (flat_domain_name f) = (log, Inr None)"
  shows "flat_field_step dl s sfn f =
     (case field_type_to_pydantic_dict (f_type f) of
        None \<Rightarrow> ([], Inl (KeyError (f_type f)))
      | Some T \<Rightarrow>
          if is_shape_field sfn f \<or> \<not> f_editable f then ([], Inr None)
          else (log, Inr (Some (f_name f, plain_tuple f T s (field_max_length f)))))"
  using assms by (simp add: flat_field_step_def split: option.split)

lemma subtype_step_no_pair:
  assumes "domain_tuple_for dl s f (subtype_domain_name sd f) = (log, Inr None)"
  shows "subtype_field_step dl s sfn stfn code (dflt, sd) f =
     (case field_type_to_pydantic_dict (f_type f) of
        None \<Rightarrow> ([], Inl (KeyError (f_type f)))
      | Some T \<Rightarrow>
          if is_shape_field sfn f \<or> \<not> f_editable f then ([], Inr None)
          else (case stfn of
                  None \<Rightarrow> (log, Inl UnboundLocalError)
                | Some n \<Rightarrow>
                    if f_name f = n then (log, Inr (Some (f_name f, pinned_tuple code)))
                    else (log, Inr (Some (f_name f, plain_tuple f T s (field_max_length f))))))"
  using assms by (simp add: subtype_field_step_def split: option.split)

lemma flat_step_domain_absent:
  assumes "flat_domain_name f = Some n"
    and "make_domain_tuple dl n (f_isNullable f) s (field_max_length f) = (log, Inr None)"
  shows "snd (flat_field_step dl s sfn f) = snd (flat_field_step dl s sfn (f\<lparr>f_domain := ''''\<rparr>))"
proof -
  have a: "domain_tuple_for dl s f (flat_domain_name f) = (log, Inr None)"
    using assms by (simp add: domain_tuple_for_def)
  have b: "domain_tuple_for dl s (f\<lparr>f_domain := ''''\<rparr>)
             (flat_domain_name (f\<lparr>f_domain := ''''\<rparr>)) = ([], Inr None)"
    by simp
  show ?thesis
    unfolding flat_step_no_pair [OF a] flat_step_no_pair [OF b]
    by (simp split: option.split)
qed

lemma subtype_step_domain_absent:
  assumes "subtype_domain_name sd f = Some n"
    and "make_domain_tuple dl n (f_isNullable f) s (field_max_length f) = (log, Inr None)"
  shows "snd (subtype_field_step dl s sfn stfn code (dflt, sd) f) =
         snd (subtype_field_step dl s sfn stfn code (dflt, None) (f\<lparr>f_domain := ''''\<rparr>))"
proof -
  have a: "domain_tuple_for dl s f (subtype_domain_name sd f) = (log, Inr None)"
    using assms by (simp add: domain_tuple_for_def)
  have b: "domain_tuple_for dl s (f\<lparr>f_domain := ''''\<rparr>)
             (subtype_domain_name None (f\<lparr>f_domain := ''''\<rparr>)) = ([], Inr None)"
    by simp
  show ?thesis
    unfolding subtype_step_no_pair [OF a] subtype_step_no_pair [OF b]
    by (simp split: option.split)
qed

lemma flat_step_domain_absent_nolog:
  assumes "flat_domain_name f = Some n"
    and "make_domain_tuple dl n (f_isNullable f) s (field_max_length f) = ([], Inr None)"
  shows "flat_field_step dl s sfn f = flat_field_step dl s sfn (f\<lparr>f_domain := ''''\<rparr>)"
proof -
  have a: "domain_tuple_for dl s f (flat_domain_name f) = ([], Inr None)"
    using assms by (simp add: domain_tuple_for_def)
  have b: "domain_tuple_for dl s (f\<lparr>f_domain := ''''\<rparr>)
             (flat_domain_name (f\<lparr>f_domain := ''''\<rparr>)) = ([], Inr None)"
    by simp
  show ?thesis
    unfolding flat_step_no_pair [OF a] flat_step_no_pair [OF b]
    by (simp split: option.split)
qed

lemma subtype_step_domain_absent_nolog:
  assumes "subtype_domain_name sd f = Some n"
    and "make_domain_tuple dl n (f_isNullable f) s (field_max_length f) = ([], Inr None)"
  shows "subtype_field_step dl s sfn stfn code (dflt, sd) f =
         subtype_field_step dl s sfn stfn code (dflt, None) (f\<lparr>f_domain := ''''\<rparr>)"
proof -
  have a: "domain_tuple_for dl s f (subtype_domain_name sd f) = ([], Inr None)"
    using assms by (simp add: domain_tuple_for_def)
  have b: "domain_tuple_for dl s (f\<lparr>f_domain := ''''\<rparr>)
             (subtype_domain_name None (f\<lparr>f_domain := ''''\<rparr>)) = ([], Inr None)"
    by simp
  show ?thesis
    unfolding subtype_step_no_pair [OF a] subtype_step_no_pair [OF b]
    by (simp split: option.split)
qed

lemma make_domain_tuple_coded:
  assumes "find (\<lambda>d. d_name d = n) dl = Some the_domain"
    and "d_domainType the_domain = ''CodedValue''"
    and "d_codedValues the_domain = Some cv"
  shows "make_domain_tuple dl n nullable s ml =
     (if cv = [] then ([], Inr None)
      else if \<not> nullable \<and> s
           then ([], Inr (Some (Literal (map fst cv), Field NoDefault ml None None)))
           else ([], Inr (Some (Optional (Literal (map fst cv)),
                                Field DefaultFactoryNone ml None None))))"
  using assms by (cases ml) (simp_all add: make_domain_tuple_def Let_def)

lemma make_domain_tuple_coded_missing:
  assumes "find (\<lambda>d. d_name d = n) dl = Some the_domain"
    and "d_domainType the_domain = ''CodedValue''"
    and "d_codedValues the_domain = None"
  shows "make_domain_tuple dl n nullable s ml = ([], Inl AttributeError)"
  using assms by (simp add: make_domain_tuple_def)

lemma make_domain_tuple_miss:
  assumes "find (\<lambda>d. d_name d = n) dl = None"
  shows "make_domain_tuple dl n nullable s ml =
           ([LogWarning (''Could not find domain named :'' @ n)], Inr None)"
  using assms by (simp add: make_domain_tuple_def)

lemma flat_model_params:
  "snd (flat_model tn dl s sfn flds) = Inr m \<Longrightarrow>
   snd (fields_loop (flat_field_step dl s sfn) flds (initial_params sfn)) = Inr (model_params m)"
  by (cases "fields_loop (flat_field_step dl s sfn) flds (initial_params sfn)")
     (auto simp: flat_model_def split: sum.splits)

lemma subtype_model_params:
  "snd (subtype_model tn dl s sfn stfn flds (code, sd)) = Inr m \<Longrightarrow>
   snd (fields_loop (\<lambda>(st_tuple, field). subtype_field_step dl s sfn stfn code st_tuple field)
          (st_fld_zip sd flds) (initial_params sfn)) = Inr (model_params m)"
  by (cases "fields_loop (\<lambda>(st_tuple, field). subtype_field_step dl s sfn stfn code st_tuple field)
          (st_fld_zip sd flds) (initial_params sfn)")
     (auto simp: subtype_model_def Let_def split: sum.splits)

lemma make_table_adapter_Some:
  "snd (make_table_adapter w p s) = Some a \<Longrightarrow> snd (make_table_adapter_try w p s) = Inr a"
  by (cases "make_table_adapter_try w p s")
     (auto simp: make_table_adapter_def split: sum.splits)

lemma discriminated_union_Inr:
  "discriminated_union ms stfn = Inr a \<Longrightarrow> \<exists>n. stfn = Some n \<and> a = UnionAdapter ms n"
  by (cases "ms = []"; cases stfn)
     (auto simp: discriminated_union_def split: sum.splits)

lemma make_table_adapter_try_cases:
  assumes "snd (make_table_adapter_try w p s) = Inr a"
  shows "\<exists>dl d. ListDomains w (dirname p) = Inr dl \<and> Describe w p = Inr d \<and>
     (if subtypeFieldName d = ''''
      then \<exists>m. snd (flat_model (basename p) dl s (shapeFieldName d) (desc_fields d)) = Inr m \<and>
               a = TableAdapter m
      else \<exists>sts ms n. ListSubtypes w p = Inr sts \<and>
             find (\<lambda>n. casefold n = casefold (subtypeFieldName d)) (map f_name (desc_fields d))
               = Some n \<and>
             snd (subtypes_loop
                    (subtype_model (basename p) dl s (shapeFieldName d) (Some n) (desc_fields d))
                    sts []) = Inr ms \<and>
             a = UnionAdapter ms n)"
proof (cases "ListDomains w (dirname p)")
  case (Inl e)
  with assms show ?thesis by (simp add: make_table_adapter_try_def)
next
  case dl: (Inr dl)
  show ?thesis
  proof (cases "Describe w p")
    case (Inl e)
    with assms dl show ?thesis by (simp add: make_table_adapter_try_def)
  next
    case d: (Inr d)
    show ?thesis
    proof (cases "subtypeFieldName d = ''''")
      case True
      obtain l r where fm: "flat_model (basename p) dl s (shapeFieldName d) (desc_fields d) = (l, r)"
        by (cases "flat_model (basename p) dl s (shapeFieldName d) (desc_fields d)")
      from assms dl d True fm have "\<exists>m. r = Inr m \<and> a = TableAdapter m"
        by (cases r) (simp_all add: make_table_adapter_try_def)
      with dl d True fm show ?thesis by auto
    next
      case False
      show ?thesis
      proof (cases "ListSubtypes w p")
        case (Inl e)
        with assms dl d False show ?thesis by (simp add: make_table_adapter_try_def)
      next
        case sts: (Inr sts)
        let ?stfn = "find (\<lambda>n. casefold n = casefold (subtypeFieldName d)) (map f_name (desc_fields d))"
        obtain l r where sl: "subtypes_loop
                    (subtype_model (basename p) dl s (shapeFieldName d) ?stfn (desc_fields d))
                    sts [] = (l, r)"
          by (cases "subtypes_loop
                    (subtype_model (basename p) dl s (shapeFieldName d) ?stfn (desc_fields d))
                    sts []")
        from assms dl d False sts sl
        have "\<exists>ms. r = Inr ms \<and> discriminated_union ms ?stfn = Inr a"
          by (cases r) (simp_all add: make_table_adapter_try_def del: find.simps)
        then obtain ms where "r = Inr ms" and du: "discriminated_union ms ?stfn = Inr a" by blast
        from discriminated_union_Inr [OF du]
        obtain n where "?stfn = Some n" "a = UnionAdapter ms n" by blast
        note this = \<open>r = Inr ms\<close> this
        with dl d False sts sl show ?thesis by auto
      qed
    qed
  qed
qed

lemma initial_params_keys:
  "k \<in> fst ` set (initial_params sfn) \<Longrightarrow> sfn = Some k"
  by (cases sfn) (simp_all add: initial_params_def)

lemma initial_params_shape:
  "map_of (initial_params (Some sn)) sn = Some shape_tuple"
  by (simp add: initial_params_def)

lemma not_shape_field_name:
  "\<not> is_shape_field (Some sn) f \<Longrightarrow> f_name f \<noteq> sn"
  by (auto simp: is_shape_field_def)

lemma flat_loop_keys:
  assumes "snd (fields_loop (flat_field_step dl s sfn) flds (initial_params sfn)) = Inr ps"
    and "k \<in> fst ` set ps"
  shows "sfn = Some k \<or>
         (\<exists>f \<in> set flds. f_name f = k \<and> f_editable f \<and> \<not> is_shape_field sfn f)"
proof -
  from fields_loop_keys [OF assms]
  have "k \<in> fst ` set (initial_params sfn) \<or>
        (\<exists>f \<in> set flds. \<exists>t. snd (flat_field_step dl s sfn f) = Inr (Some (k, t)))" .
  then show ?thesis
  proof
    assume "k \<in> fst ` set (initial_params sfn)"
    then show ?thesis by (simp add: initial_params_keys)
  next
    assume "\<exists>f \<in> set flds. \<exists>t. snd (flat_field_step dl s sfn f) = Inr (Some (k, t))"
    then obtain f t where f: "f \<in> set flds"
      and st: "snd (flat_field_step dl s sfn f) = Inr (Some (k, t))" by blast
    from flat_field_step_cases [OF st]
    have "k = f_name f \<and> f_editable f \<and> \<not> is_shape_field sfn f" by blast
    with f show ?thesis by blast
  qed
qed

lemma subtype_loop_keys:
  assumes "snd (fields_loop (\<lambda>(st_tuple, field). subtype_field_step dl s sfn stfn code st_tuple field)
                  (st_fld_zip sd flds) (initial_params sfn)) = Inr ps"
    and "k \<in> fst ` set ps"
  shows "sfn = Some k \<or>
         (\<exists>f \<in> set flds. f_name f = k \<and> f_editable f \<and> \<not> is_shape_field sfn f)"
proof -
  let ?step = "\<lambda>(st_tuple, field). subtype_field_step dl s sfn stfn code st_tuple field"
  from fields_loop_keys [OF assms]
  have "k \<in> fst ` set (initial_params sfn) \<or>
        (\<exists>x \<in> set (st_fld_zip sd flds). \<exists>t. snd (?step x) = Inr (Some (k, t)))" .
  then show ?thesis
  proof
    assume "k \<in> fst ` set (initial_params sfn)"
    then show ?thesis by (simp add: initial_params_keys)
  next
    assume "\<exists>x \<in> set (st_fld_zip sd flds). \<exists>t. snd (?step x) = Inr (Some (k, t))"
    then obtain x t where x: "x \<in> set (st_fld_zip sd flds)"
      and st: "snd (?step x) = Inr (Some (k, t))" by blast
    obtain st_tuple f where xe: "x = (st_tuple, f)" by (cases x)
    from x xe have f: "f \<in> set flds"
      by (auto simp: st_fld_zip_def dest: set_zip_rightD)
    from st xe have "snd (subtype_field_step dl s sfn stfn code st_tuple f) = Inr (Some (k, t))"
      by simp
    from subtype_field_step_cases [OF this]
    have "k = f_name f \<and> f_editable f \<and> \<not> is_shape_field sfn f" by blast
    with f show ?thesis by blast
  qed
qed

lemma flat_loop_shape:
  assumes "snd (fields_loop (flat_field_step dl s (Some sn)) flds (initial_params (Some sn))) = Inr ps"
  shows "map_of ps sn = Some shape_tuple"
proof (rule fields_loop_preserves [OF assms initial_params_shape])
  fix f t
  show "snd (flat_field_step dl s (Some sn) f) \<noteq> Inr (Some (sn, t))"
  proof
    assume "snd (flat_field_step dl s (Some sn) f) = Inr (Some (sn, t))"
    from flat_field_step_cases [OF this]
    have "sn = f_name f" "\<not> is_shape_field (Some sn) f" by blast+
    with not_shape_field_name show False by blast
  qed
qed

lemma subtype_loop_shape:
  assumes "snd (fields_loop (\<lambda>(st_tuple, field). subtype_field_step dl s (Some sn) stfn code st_tuple field)
                  xs (initial_params (Some sn))) = Inr ps"
  shows "map_of ps sn = Some shape_tuple"
proof (rule fields_loop_preserves [OF assms initial_params_shape])
  fix x :: "(pyval option \<times> domain option) \<times> field" and t
  obtain st_tuple f where xe: "x = (st_tuple, f)" by (cases x)
  show "snd ((\<lambda>(st_tuple, field). subtype_field_step dl s (Some sn) stfn code st_tuple field) x)
          \<noteq> Inr (Some (sn, t))"
  proof
    assume "snd ((\<lambda>(st_tuple, field). subtype_field_step dl s (Some sn) stfn code st_tuple field) x)
          = Inr (Some (sn, t))"
    with xe have "snd (subtype_field_step dl s (Some sn) stfn code st_tuple f) = Inr (Some (sn, t))"
      by simp
    from subtype_field_step_cases [OF this]
    have "sn = f_name f" "\<not> is_shape_field (Some sn) f" by blast+
    with not_shape_field_name show False by blast
  qed
qed

text \<open>Every model of a returned adapter is the result of one run of a field loop.\<close>

lemma adapter_model_source:
  assumes "snd (make_table_adapter w p s) = Some a" and "m \<in> set (adapter_models a)"
    and "Describe w p = Inr d"
  shows "\<exists>dl. (snd (fields_loop (flat_field_step dl s (shapeFieldName d)) (desc_fields d)
                         (initial_params (shapeFieldName d))) = Inr (model_params m)) \<or>
              (\<exists>stfn code sd.
                 snd (fields_loop (\<lambda>(st_tuple, field).
                          subtype_field_step dl s (shapeFieldName d) stfn code st_tuple field)
                        (st_fld_zip sd (desc_fields d)) (initial_params (shapeFieldName d)))
                   = Inr (model_params m))"
proof -
  from make_table_adapter_try_cases [OF make_table_adapter_Some [OF assms(1)]] assms(3)
  obtain dl where c: "if subtypeFieldName d = ''''
      then \<exists>m. snd (flat_model (basename p) dl s (shapeFieldName d) (desc_fields d)) = Inr m \<and>
               a = TableAdapter m
      else \<exists>sts ms n. ListSubtypes w p = Inr sts \<and>
             find (\<lambda>n. casefold n = casefold (subtypeFieldName d)) (map f_name (desc_fields d))
               = Some n \<and>
             snd (subtypes_loop
                    (subtype_model (basename p) dl s (shapeFieldName d) (Some n) (desc_fields d))
                    sts []) = Inr ms \<and>
             a = UnionAdapter ms n"
    by auto
  show ?thesis
  proof (cases "subtypeFieldName d = ''''")
    case True
    with c assms(2) have "snd (flat_model (basename p) dl s (shapeFieldName d) (desc_fields d)) = Inr m"
      by auto
    from flat_model_params [OF this] show ?thesis by blast
  next
    case False
    with c obtain sts ms n where
      sl: "snd (subtypes_loop
                    (subtype_model (basename p) dl s (shapeFieldName d) (Some n) (desc_fields d))
                    sts []) = Inr ms" and a: "a = UnionAdapter ms n"
      by auto
    from a assms(2) have "m \<in> set ms" by simp
    from subtypes_loop_models [OF sl this]
    obtain item where "snd (subtype_model (basename p) dl s (shapeFieldName d) (Some n)
                              (desc_fields d) item) = Inr m"
      by auto
    then have "snd (subtype_model (basename p) dl s (shapeFieldName d) (Some n)
                              (desc_fields d) (fst item, snd item)) = Inr m" by simp
    from subtype_model_params [OF this] show ?thesis by blast
  qed
qed

lemmas run_defs = make_table_adapter_def make_table_adapter_try_def table_world_def
  flat_model_def subtype_model_def st_fld_zip_def initial_params_def

lemma shape_table_adapter:
  "make_table_adapter (table_world example_domains shape_table []) parcels_path s =
     ([], Some (TableAdapter (Model (basename parcels_path)
        [(''Shape'', shape_tuple),
         (''NAME'', (if s then Plain PyStr else Optional (Plain PyStr),
                     Field (if s then NoDefault else DefaultFactoryNone) (Some 10) None None))])))"
  by (simp add: run_defs shape_table_def ex_defs)

lemma locked_shape_table_adapter:
  "make_table_adapter (table_world example_domains locked_shape_table []) parcels_path True =
     ([], Some (TableAdapter (Model (basename parcels_path)
        [(''Shape'', shape_tuple),
         (''NAME'', (Plain PyStr, Field NoDefault (Some 10) None None))])))"
  by (simp add: run_defs locked_shape_table_def ex_defs)

lemma plain_tuple_max_length:
  "fi_max_length (snd (plain_tuple f T s ml)) = ml"
  by (simp add: plain_tuple_def Field_def split: option.split prod.split)

lemma plain_tuple_annotation:
  "fst (plain_tuple f T s ml) = Plain T \<or> fst (plain_tuple f T s ml) = Optional (Plain T)"
  by (simp add: plain_tuple_def split: option.split prod.split)

lemma textual_type_is_str:
  "f_type f = ''String'' \<or> f_type f = ''Text'' \<Longrightarrow>
   field_type_to_pydantic_dict (f_type f) = Some T \<Longrightarrow> T = PyStr"
  by (auto simp: field_type_to_pydantic_dict_def)

lemma plain_tuple_explicit:
  "plain_tuple f T s ml =
     (if \<not> f_isNullable f \<and> s then Plain T else Optional (Plain T),
      Field (if \<not> f_isNullable f \<and> s then NoDefault else DefaultFactoryNone) ml
        (map_option fst (field_type_min_max (f_type f)))
        (map_option snd (field_type_min_max (f_type f))))"
  by (simp add: plain_tuple_def split: option.split prod.split)

lemma flat_step_fallback:
  assumes "domain_tuple_for dl s f (flat_domain_name f) = (log, Inr None)"
    and "field_type_to_pydantic_dict (f_type f) = Some T"
    and "f_editable f" and "\<not> is_shape_field sfn f"
  shows "flat_field_step dl s sfn f =
     (log, Inr (Some (f_name f,
        (if \<not> f_isNullable f \<and> s then Plain T else Optional (Plain T),
         Field (if \<not> f_isNullable f \<and> s then NoDefault else DefaultFactoryNone)
           (if f_type f = ''String'' then Some (f_length f) else None)
           (map_option fst (field_type_min_max (f_type f)))
           (map_option snd (field_type_min_max (f_type f)))))))"
  unfolding flat_step_no_pair [OF assms(1)] plain_tuple_explicit field_max_length_def
  using assms(2-4) by simp

lemma subtype_step_fallback:
  assumes "domain_tuple_for dl s f (subtype_domain_name sd f) = (log, Inr None)"
    and "field_type_to_pydantic_dict (f_type f) = Some T"
    and "f_editable f" and "\<not> is_shape_field sfn f"
    and "k \<noteq> f_name f"
  shows "subtype_field_step dl s sfn (Some k) code (dflt, sd) f =
     (log, Inr (Some (f_name f,
        (if \<not> f_isNullable f \<and> s then Plain T else Optional (Plain T),
         Field (if \<not> f_isNullable f \<and> s then NoDefault else DefaultFactoryNone)
           (if f_type f = ''String'' then Some (f_length f) else None)
           (map_option fst (field_type_min_max (f_type f)))
           (map_option snd (field_type_min_max (f_type f)))))))"
  unfolding subtype_step_no_pair [OF assms(1)] plain_tuple_explicit field_max_length_def
  using assms(2-5) by auto

lemma subtype_step_no_raise:
  assumes "domain_tuple_for dl s f (subtype_domain_name sd f) = (log, Inr None)"
    and "field_type_to_pydantic_dict (f_type f) = Some T"
  shows "\<exists>r. snd (subtype_field_step dl s sfn (Some k) code (dflt, sd) f) = Inr r"
  unfolding subtype_step_no_pair [OF assms(1)]
  using assms(2) by simp

lemma flat_step_no_raise:
  assumes "domain_tuple_for dl s f (flat_domain_name f) = (log, Inr None)"
    and "field_type_to_pydantic_dict (f_type f) = Some T"
  shows "\<exists>r. snd (flat_field_step dl s sfn f) = Inr r"
  unfolding flat_step_no_pair [OF assms(1)]
  using assms(2) by simp

lemma fields_loop_first_error:
  "(\<And>y. y \<in> set pre \<Longrightarrow> \<exists>r. snd (step y) = Inr r) \<Longrightarrow> snd (step x) = Inl e \<Longrightarrow>
   snd (fields_loop step (pre @ x # post) ps) = Inl e"
proof (induction pre arbitrary: ps)
  case Nil
  then show ?case by (cases "step x") simp
next
  case (Cons y ys)
  obtain l r where sy: "step y = (l, r)" by (cases "step y")
  from Cons.prems(1) [of y] sy obtain v where r: "r = Inr v" by auto
  have rest: "\<And>z. z \<in> set ys \<Longrightarrow> \<exists>r. snd (step z) = Inr r"
    using Cons.prems(1) by simp
  from Cons.IH [OF rest Cons.prems(2)]
  have ih: "snd (fields_loop step (ys @ x # post) ps') = Inl e" for ps' .
  show ?case
  proof (cases v)
    case None
    with sy r ih show ?thesis by simp
  next
    case (Some kt)
    with sy r ih show ?thesis by (cases kt) simp
  qed
qed

lemma subtypes_loop_first_error:
  "(\<And>i. i \<in> set pre \<Longrightarrow> \<exists>r. snd (build i) = Inr r) \<Longrightarrow> snd (build item) = Inl e \<Longrightarrow>
   snd (subtypes_loop build (pre @ item # post) acc) = Inl e"
proof (induction pre arbitrary: acc)
  case Nil
  then show ?case by (cases "build item") simp
next
  case (Cons y ys)
  obtain l r where sy: "build y = (l, r)" by (cases "build y")
  from Cons.prems(1) [of y] sy obtain v where r: "r = Inr v" by auto
  have rest: "\<And>z. z \<in> set ys \<Longrightarrow> \<exists>r. snd (build z) = Inr r"
    using Cons.prems(1) by simp
  from Cons.IH [OF rest Cons.prems(2)]
  have "snd (subtypes_loop build (ys @ item # post) acc') = Inl e" for acc' .
  with sy r show ?case by simp
qed

lemma subtypes_loop_error:
  "item \<in> set items \<Longrightarrow> snd (build item) = Inl e \<Longrightarrow>
   \<exists>e'. snd (subtypes_loop build items acc) = Inl e'"
proof (induction items arbitrary: acc)
  case Nil
  then show ?case by simp
next
  case (Cons y ys)
  obtain l r where sy: "build y = (l, r)" by (cases "build y")
  show ?case
  proof (cases r)
    case (Inl e0)
    with sy show ?thesis by simp
  next
    case (Inr m)
    with Cons.prems sy have "item \<in> set ys" by auto
    from Cons.IH [OF this Cons.prems(2)] show ?thesis using sy Inr by simp
  qed
qed

lemma flat_model_error:
  "snd (fields_loop (flat_field_step dl s sfn) flds (initial_params sfn)) = Inl e \<Longrightarrow>
   snd (flat_model tn dl s sfn flds) = Inl e"
  by (cases "fields_loop (flat_field_step dl s sfn) flds (initial_params sfn)")
     (simp add: flat_model_def)

lemma subtype_model_error:
  "snd (fields_loop (\<lambda>(st_tuple, field). subtype_field_step dl s sfn stfn code st_tuple field)
          (st_fld_zip sd flds) (initial_params sfn)) = Inl e \<Longrightarrow>
   snd (subtype_model tn dl s sfn stfn flds (code, sd)) = Inl e"
  by (cases "fields_loop (\<lambda>(st_tuple, field). subtype_field_step dl s sfn stfn code st_tuple field)
          (st_fld_zip sd flds) (initial_params sfn)")
     (simp add: subtype_model_def Let_def)

lemma flat_table_try_error:
  assumes "ListDomains w (dirname p) = Inr dl" and "Describe w p = Inr d"
    and "subtypeFieldName d = ''''"
    and "snd (flat_model (basename p) dl s (shapeFieldName d) (desc_fields d)) = Inl e"
  shows "snd (make_table_adapter_try w p s) = Inl e"
  using assms
  by (cases "flat_model (basename p) dl s (shapeFieldName d) (desc_fields d)")
     (simp add: make_table_adapter_try_def)

lemma subtyped_table_try_error:
  assumes "ListDomains w (dirname p) = Inr dl" and "Describe w p = Inr d"
    and "subtypeFieldName d \<noteq> ''''" and "ListSubtypes w p = Inr sts"
    and "stfn = find (\<lambda>n. casefold n = casefold (subtypeFieldName d)) (map f_name (desc_fields d))"
    and "snd (subtypes_loop (subtype_model (basename p) dl s (shapeFieldName d) stfn (desc_fields d))
                sts []) = Inl e"
  shows "snd (make_table_adapter_try w p s) = Inl e"
  using assms
  by (cases "subtypes_loop (subtype_model (basename p) dl s (shapeFieldName d) stfn (desc_fields d))
                sts []")
     (simp add: make_table_adapter_try_def del: find.simps)

lemma make_table_adapter_of_error:
  "snd (make_table_adapter_try w p s) = Inl ex \<Longrightarrow>
   make_table_adapter w p s = (fst (make_table_adapter_try w p s) @ [LogError ex], None)"
  by (cases "make_table_adapter_try w p s") (simp add: make_table_adapter_def)

lemma try_fails_without_domains:
  "ListDomains w (dirname p) = Inl e \<Longrightarrow> snd (make_table_adapter_try w p s) = Inl e"
  by (simp add: make_table_adapter_try_def)

lemma zoned_models:
  "subtypes_loop
     (subtype_model ''parcels'' example_domains True None (Some ''TYPE'') (desc_fields zoned_table))
     zoned_subtypes [] =
   ([], Inr
     [Model ''parcels-Residential''
        [(''TYPE'', (Literal [IntV 1, IntV 2], Field NoDefault None None None)),
         (''COVER'', (Optional (Plain PyInt),
                      Field DefaultFactoryNone None (Some (NInt 0)) (Some (NInt 100))))],
      Model ''parcels-Commercial''
        [(''TYPE'', (Literal [IntV 1, IntV 2], Field NoDefault None None None)),
         (''COVER'', (Optional (Plain PyInt), Field DefaultFactoryNone None
                        (Some (NInt (-2147483648))) (Some (NInt 2147483647))))]])"
  by (simp add: subtype_model_def st_fld_zip_def initial_params_def zoned_table_def
        zoned_subtypes_def ex_defs)

section \<open>Nullability and requiredness\<close>

text \<open>
  Claim C3. For a field that is not the subtype field, every branch of the loop bodies
  (coded-value domain, range domain, no domain) resolves nullability the same way: a
  field that is not nullable, under \<open>insert_explicit\<close>, gets a required pair that does
  not admit null and has no default; in every other case the pair is not required,
  admits null, and has the default factory \<open>lambda: None\<close>.
\<close>

theorem nullability_requiredness_uniform:
  assumes "snd (flat_field_step dl s sfn f) = Inr (Some (k, t)) \<or>
           snd (subtype_field_step dl s sfn stfn code st f) = Inr (Some (k, t)) \<and>
           stfn \<noteq> Some (f_name f)"
  shows "if \<not> f_isNullable f \<and> s
         then node_required t \<and> \<not> node_nullable t \<and> fi_default (snd t) = NoDefault
         else \<not> node_required t \<and> node_nullable t \<and> fi_default (snd t) = DefaultFactoryNone"
proof -
  have "(\<exists>dn. snd (domain_tuple_for dl s f dn) = Inr (Some t)) \<or>
        (\<exists>T ml. t = plain_tuple f T s ml)"
    using assms
  proof
    assume "snd (flat_field_step dl s sfn f) = Inr (Some (k, t))"
    from flat_field_step_cases [OF this] show ?thesis by blast
  next
    assume a: "snd (subtype_field_step dl s sfn stfn code st f) = Inr (Some (k, t)) \<and>
               stfn \<noteq> Some (f_name f)"
    from subtype_field_step_cases [OF conjunct1 [OF a]] conjunct2 [OF a]
    show ?thesis by blast
  qed
  then show ?thesis
  proof
    assume "\<exists>dn. snd (domain_tuple_for dl s f dn) = Inr (Some t)"
    then obtain dn where "snd (domain_tuple_for dl s f dn) = Inr (Some t)" ..
    from domain_tuple_for_nullability [OF this] show ?thesis
      by (cases "\<not> f_isNullable f \<and> s") (auto simp: node_required_def node_nullable_def)
  next
    assume "\<exists>T ml. t = plain_tuple f T s ml"
    then obtain T ml where "t = plain_tuple f T s ml" by blast
    with plain_tuple_nullability [of f s T ml] show ?thesis
      by (cases "\<not> f_isNullable f \<and> s") (auto simp: node_required_def node_nullable_def)
  qed
qed

theorem nullability_requiredness_uniform_witness:
  "snd (flat_field_step example_domains True None
          (example_field ''ZONE'' ''Integer'' 4 True False ''TypeCodes''))
     = Inr (Some (''ZONE'', (Literal [IntV 1, IntV 2], Field NoDefault None None None))) \<and>
   node_required (Literal [IntV 1, IntV 2], Field NoDefault None None None) \<and>
   \<not> node_nullable (Literal [IntV 1, IntV 2], Field NoDefault None None None) \<and>
   snd (subtype_field_step example_domains False None (Some ''TYPE'') (IntV 1) (None, Some percent)
          (example_field ''COVER'' ''Integer'' 4 True False ''''))
     = Inr (Some (''COVER'', (Optional (Plain PyInt),
              Field DefaultFactoryNone None (Some (NInt 0)) (Some (NInt 100))))) \<and>
   ''TYPE'' \<noteq> ''COVER'' \<and>
   \<not> node_required (Optional (Plain PyInt),
              Field DefaultFactoryNone None (Some (NInt 0)) (Some (NInt 100))) \<and>
   node_nullable (Optional (Plain PyInt),
              Field DefaultFactoryNone None (Some (NInt 0)) (Some (NInt 100)))"
proof -
  have a: "snd (flat_field_step example_domains True None
          (example_field ''ZONE'' ''Integer'' 4 True False ''TypeCodes''))
     = Inr (Some (''ZONE'', (Literal [IntV 1, IntV 2], Field NoDefault None None None)))"
    by (simp add: ex_defs)
  have b: "snd (subtype_field_step example_domains False None (Some ''TYPE'') (IntV 1)
          (None, Some percent) (example_field ''COVER'' ''Integer'' 4 True False ''''))
     = Inr (Some (''COVER'', (Optional (Plain PyInt),
              Field DefaultFactoryNone None (Some (NInt 0)) (Some (NInt 100)))))"
    by (simp add: ex_defs)
  have c: "Some ''TYPE'' \<noteq> Some (f_name (example_field ''COVER'' ''Integer'' 4 True False ''''))"
    by (simp add: example_field_def)
  from nullability_requiredness_uniform [OF disjI1, OF a]
       nullability_requiredness_uniform [OF disjI2, OF conjI, OF b c] a b
  show ?thesis by (simp add: example_field_def)
qed

section \<open>Failures of synthesis\<close>

text \<open>
  Claim C1, as stated, at a concrete input: the workspace cannot be opened, the
  \<open>try\<close> block ends in that exception, and \<open>make_table_adapter\<close> returns \<open>None\<close>
  to its caller instead of a failure.
\<close>

theorem access_failure_returns_None:
  "snd (make_table_adapter_try unreachable_world parcels_path True)
     = Inl (ExternalError ''cannot open workspace'') \<and>
   snd (make_table_adapter unreachable_world parcels_path True) = None"
  by (simp add: make_table_adapter_def make_table_adapter_try_def unreachable_world_def)

text \<open>
  Claim C1, amended. \<open>make_table_adapter\<close> never lets an exception reach its caller:
  when a metadata read or any later step raises, the handler appends the exception to
  the log as an error and the function returns \<open>None\<close>; and \<open>None\<close> is returned only
  then, a synthesis that succeeds returns its adapter.
\<close>

theorem make_table_adapter_swallows_failure:
  "(ListDomains w (dirname table_path) = Inl e \<longrightarrow>
      make_table_adapter w table_path insert_explicit = ([LogError e], None)) \<and>
   (snd (make_table_adapter_try w table_path insert_explicit) = Inl ex \<longrightarrow>
      make_table_adapter w table_path insert_explicit =
        (fst (make_table_adapter_try w table_path insert_explicit) @ [LogError ex], None)) \<and>
   (snd (make_table_adapter w table_path insert_explicit) = None \<longrightarrow>
      (\<exists>ex. snd (make_table_adapter_try w table_path insert_explicit) = Inl ex))"
proof (intro conjI impI)
  assume "ListDomains w (dirname table_path) = Inl e"
  then show "make_table_adapter w table_path insert_explicit = ([LogError e], None)"
    by (simp add: make_table_adapter_def make_table_adapter_try_def)
next
  assume "snd (make_table_adapter_try w table_path insert_explicit) = Inl ex"
  then show "make_table_adapter w table_path insert_explicit =
        (fst (make_table_adapter_try w table_path insert_explicit) @ [LogError ex], None)"
    by (cases "make_table_adapter_try w table_path insert_explicit")
       (simp add: make_table_adapter_def)
next
  assume "snd (make_table_adapter w table_path insert_explicit) = None"
  then show "\<exists>ex. snd (make_table_adapter_try w table_path insert_explicit) = Inl ex"
    by (cases "make_table_adapter_try w table_path insert_explicit")
       (auto simp: make_table_adapter_def split: sum.splits)
qed

theorem make_table_adapter_swallows_failure_witness:
  "ListDomains unreachable_world (dirname parcels_path) = Inl (ExternalError ''cannot open workspace'') \<and>
   snd (make_table_adapter_try unreachable_world parcels_path True)
     = Inl (ExternalError ''cannot open workspace'') \<and>
   snd (make_table_adapter unreachable_world parcels_path True) = None \<and>
   make_table_adapter unreachable_world parcels_path True
     = ([LogError (ExternalError ''cannot open workspace'')], None)"
proof -
  have a: "ListDomains unreachable_world (dirname parcels_path)
             = Inl (ExternalError ''cannot open workspace'')"
    by (simp add: unreachable_world_def)
  from make_table_adapter_swallows_failure
         [of unreachable_world parcels_path "ExternalError ''cannot open workspace''" True
             "ExternalError ''cannot open workspace''"] a
  show ?thesis by (simp add: make_table_adapter_try_def)
qed

text \<open>
  Claim C4, as stated, at two concrete inputs: a table without subtypes, and a table
  with one subtype, each declaring a field of type \<open>BigInteger\<close>, which the type table
  lacks; the \<open>KeyError\<close> is logged and the caller gets \<open>None\<close>.
\<close>

theorem unmapped_type_error_is_swallowed:
  "make_table_adapter (table_world example_domains bigint_table []) parcels_path True
     = ([LogError (KeyError ''BigInteger'')], None) \<and>
   make_table_adapter (table_world example_domains zoned_bigint_table zoned_bigint_subtypes)
     parcels_path True = ([LogError (KeyError ''BigInteger'')], None)"
proof
  show "make_table_adapter (table_world example_domains bigint_table []) parcels_path True
     = ([LogError (KeyError ''BigInteger'')], None)"
    by (simp add: run_defs bigint_table_def ex_defs)
  show "make_table_adapter (table_world example_domains zoned_bigint_table zoned_bigint_subtypes)
     parcels_path True = ([LogError (KeyError ''BigInteger'')], None)"
    by (simp add: run_defs zoned_bigint_table_def zoned_bigint_subtypes_def ex_defs
          del: find.simps)
       (simp add: casefold_def casefold_char_def)
qed

text \<open>
  Claim C4, amended. For a field whose type is not a key of
  \<open>field_type_to_pydantic_dict\<close>, the body of either field loop raises \<open>KeyError\<close>
  with that type, whatever the field's other attributes (the lookup comes before the
  tests that skip a field). This ends synthesis whenever a loop reaches such a field:
  for every field of a table without subtypes, and for every field that the zip of
  some subtype pairs with a value in a table with subtypes. No schema is built; the
  exception the \<open>try\<close> block ended in is appended to the log as an error and
  \<open>make_table_adapter\<close> returns \<open>None\<close> instead of raising. When nothing raises before
  the loop body of that field runs, the exception logged is this \<open>KeyError\<close>.
\<close>

theorem unmapped_type_aborts_synthesis:
  assumes "field_type_to_pydantic_dict (f_type field) = None"
  shows "flat_field_step dl s sfn field = ([], Inl (KeyError (f_type field))) \<and>
         subtype_field_step dl s sfn stfn code st field = ([], Inl (KeyError (f_type field))) \<and>
         (Describe w p = Inr d \<and>
          (subtypeFieldName d = '''' \<and> field \<in> set (desc_fields d) \<or>
           subtypeFieldName d \<noteq> '''' \<and> ListSubtypes w p = Inr sts \<and> (c, sd) \<in> set sts \<and>
           (st', field) \<in> set (st_fld_zip sd (desc_fields d))) \<longrightarrow>
            (\<exists>ex. snd (make_table_adapter_try w p s) = Inl ex \<and>
                  make_table_adapter w p s =
                    (fst (make_table_adapter_try w p s) @ [LogError ex], None))) \<and>
         (ListDomains w (dirname p) = Inr dl \<and> Describe w p = Inr d \<and>
          subtypeFieldName d = '''' \<and> desc_fields d = pre @ field # post \<and>
          (\<forall>g \<in> set pre. \<exists>r. snd (flat_field_step dl s (shapeFieldName d) g) = Inr r) \<longrightarrow>
            (\<exists>log. make_table_adapter w p s = (log @ [LogError (KeyError (f_type field))], None))) \<and>
         (ListDomains w (dirname p) = Inr dl \<and> Describe w p = Inr d \<and>
          subtypeFieldName d \<noteq> '''' \<and>
          stfn = find (\<lambda>n. casefold n = casefold (subtypeFieldName d)) (map f_name (desc_fields d)) \<and>
          ListSubtypes w p = Inr (spre @ (c, sd) # spost) \<and>
          (\<forall>i \<in> set spre. \<exists>r. snd (subtype_model (basename p) dl s (shapeFieldName d) stfn
                                      (desc_fields d) i) = Inr r) \<and>
          st_fld_zip sd (desc_fields d) = zpre @ (st', field) # zpost \<and>
          (\<forall>(t, g) \<in> set zpre.
              \<exists>r. snd (subtype_field_step dl s (shapeFieldName d) stfn c t g) = Inr r) \<longrightarrow>
            (\<exists>log. make_table_adapter w p s = (log @ [LogError (KeyError (f_type field))], None)))"
proof (intro conjI impI)
  show flat: "flat_field_step dl' s sfn' field = ([], Inl (KeyError (f_type field)))" for dl' sfn'
    using assms by (simp add: flat_field_step_def)
  show sub: "subtype_field_step dl' s sfn' stfn' code' st'' field = ([], Inl (KeyError (f_type field)))"
    for dl' sfn' stfn' code' st''
    using assms by (simp add: subtype_field_step_def split: prod.splits)
  {
    assume a: "Describe w p = Inr d \<and>
          (subtypeFieldName d = '''' \<and> field \<in> set (desc_fields d) \<or>
           subtypeFieldName d \<noteq> '''' \<and> ListSubtypes w p = Inr sts \<and> (c, sd) \<in> set sts \<and>
           (st', field) \<in> set (st_fld_zip sd (desc_fields d)))"
    have "\<exists>ex. snd (make_table_adapter_try w p s) = Inl ex"
    proof (cases "ListDomains w (dirname p)")
      case (Inl e)
      from try_fails_without_domains [OF this] show ?thesis by blast
    next
      case (Inr dl')
      from a have "subtypeFieldName d = '''' \<and> field \<in> set (desc_fields d) \<or>
           subtypeFieldName d \<noteq> '''' \<and> ListSubtypes w p = Inr sts \<and> (c, sd) \<in> set sts \<and>
           (st', field) \<in> set (st_fld_zip sd (desc_fields d))" by (rule conjunct2)
      then show ?thesis
      proof
        assume b: "subtypeFieldName d = '''' \<and> field \<in> set (desc_fields d)"
        have "snd (flat_field_step dl' s (shapeFieldName d) field) = Inl (KeyError (f_type field))"
          by (simp add: flat)
        from fields_loop_error [of field "desc_fields d" "flat_field_step dl' s (shapeFieldName d)"
               "KeyError (f_type field)" "initial_params (shapeFieldName d)"] b this
        obtain e' where "snd (fields_loop (flat_field_step dl' s (shapeFieldName d)) (desc_fields d)
            (initial_params (shapeFieldName d))) = Inl e'" by blast
        from flat_table_try_error [OF Inr conjunct1 [OF a] conjunct1 [OF b] flat_model_error [OF this]]
        show ?thesis by blast
      next
        assume b: "subtypeFieldName d \<noteq> '''' \<and> ListSubtypes w p = Inr sts \<and> (c, sd) \<in> set sts \<and>
           (st', field) \<in> set (st_fld_zip sd (desc_fields d))"
        let ?stfn = "find (\<lambda>n. casefold n = casefold (subtypeFieldName d)) (map f_name (desc_fields d))"
        let ?step = "\<lambda>(st_tuple, field). subtype_field_step dl' s (shapeFieldName d) ?stfn c st_tuple field"
        have "snd (?step (st', field)) = Inl (KeyError (f_type field))"
          by (simp add: sub del: find.simps)
        from fields_loop_error [of "(st', field)" "st_fld_zip sd (desc_fields d)" ?step
               "KeyError (f_type field)" "initial_params (shapeFieldName d)"] b this
        obtain e' where "snd (fields_loop ?step (st_fld_zip sd (desc_fields d))
            (initial_params (shapeFieldName d))) = Inl e'" by blast
        from subtype_model_error [OF this]
        have "snd (subtype_model (basename p) dl' s (shapeFieldName d) ?stfn (desc_fields d) (c, sd))
                = Inl e'" .
        from subtypes_loop_error [where item = "(c, sd)" and items = sts and acc = "[]"
               and build = "subtype_model (basename p) dl' s (shapeFieldName d) ?stfn (desc_fields d)"
               and e = e'] this b
        obtain e'' where "snd (subtypes_loop
            (subtype_model (basename p) dl' s (shapeFieldName d) ?stfn (desc_fields d)) sts [])
              = Inl e''" by blast
        from subtyped_table_try_error [OF Inr conjunct1 [OF a] _ _ refl this] b
        show ?thesis by blast
      qed
    qed
    then obtain ex where ex: "snd (make_table_adapter_try w p s) = Inl ex" ..
    from ex make_table_adapter_of_error [OF ex]
    show "\<exists>ex. snd (make_table_adapter_try w p s) = Inl ex \<and>
                  make_table_adapter w p s =
                    (fst (make_table_adapter_try w p s) @ [LogError ex], None)"
      by blast
  }
  {
    assume a: "ListDomains w (dirname p) = Inr dl \<and> Describe w p = Inr d \<and>
          subtypeFieldName d = '''' \<and> desc_fields d = pre @ field # post \<and>
          (\<forall>g \<in> set pre. \<exists>r. snd (flat_field_step dl s (shapeFieldName d) g) = Inr r)"
    have "snd (flat_field_step dl s (shapeFieldName d) field) = Inl (KeyError (f_type field))"
      by (simp add: flat)
    from fields_loop_first_error [of pre "flat_field_step dl s (shapeFieldName d)", OF _ this] a
    have "snd (fields_loop (flat_field_step dl s (shapeFieldName d)) (desc_fields d)
            (initial_params (shapeFieldName d))) = Inl (KeyError (f_type field))" by simp
    from flat_table_try_error [OF _ _ _ flat_model_error [OF this]] a
    have "snd (make_table_adapter_try w p s) = Inl (KeyError (f_type field))" by blast
    from make_table_adapter_of_error [OF this]
    show "\<exists>log. make_table_adapter w p s = (log @ [LogError (KeyError (f_type field))], None)"
      by blast
  }
  {
    assume a: "ListDomains w (dirname p) = Inr dl \<and> Describe w p = Inr d \<and>
          subtypeFieldName d \<noteq> '''' \<and>
          stfn = find (\<lambda>n. casefold n = casefold (subtypeFieldName d)) (map f_name (desc_fields d)) \<and>
          ListSubtypes w p = Inr (spre @ (c, sd) # spost) \<and>
          (\<forall>i \<in> set spre. \<exists>r. snd (subtype_model (basename p) dl s (shapeFieldName d) stfn
                                      (desc_fields d) i) = Inr r) \<and>
          st_fld_zip sd (desc_fields d) = zpre @ (st', field) # zpost \<and>
          (\<forall>(t, g) \<in> set zpre.
              \<exists>r. snd (subtype_field_step dl s (shapeFieldName d) stfn c t g) = Inr r)"
    let ?step = "\<lambda>(st_tuple, field). subtype_field_step dl s (shapeFieldName d) stfn c st_tuple field"
    have x: "snd (?step (st', field)) = Inl (KeyError (f_type field))"
      by (simp add: sub)
    have pre: "\<exists>r. snd (?step y) = Inr r" if "y \<in> set zpre" for y
      using a that by (cases y) auto
    from fields_loop_first_error [of zpre ?step, OF pre x] a
    have "snd (fields_loop ?step (st_fld_zip sd (desc_fields d))
            (initial_params (shapeFieldName d))) = Inl (KeyError (f_type field))" by simp
    from subtype_model_error [OF this]
    have m: "snd (subtype_model (basename p) dl s (shapeFieldName d) stfn (desc_fields d) (c, sd))
                = Inl (KeyError (f_type field))" .
    have spre: "\<exists>r. snd (subtype_model (basename p) dl s (shapeFieldName d) stfn
                                      (desc_fields d) i) = Inr r" if "i \<in> set spre" for i
      using a that by blast
    from subtypes_loop_first_error [of spre
           "subtype_model (basename p) dl s (shapeFieldName d) stfn (desc_fields d)", OF spre m]
    have "snd (subtypes_loop
            (subtype_model (basename p) dl s (shapeFieldName d) stfn (desc_fields d))
            (spre @ (c, sd) # spost) []) = Inl (KeyError (f_type field))" .
    from subtyped_table_try_error [OF _ _ _ _ _ this] a
    have "snd (make_table_adapter_try w p s) = Inl (KeyError (f_type field))" by blast
    from make_table_adapter_of_error [OF this]
    show "\<exists>log. make_table_adapter w p s = (log @ [LogError (KeyError (f_type field))], None)"
      by blast
  }
qed

theorem unmapped_type_aborts_synthesis_witness:
  "field_type_to_pydantic_dict (f_type (example_field ''PARCEL_NO'' ''BigInteger'' 8 True False ''''))
     = None \<and>
   flat_field_step example_domains True None (example_field ''PARCEL_NO'' ''BigInteger'' 8 True False '''')
     = ([], Inl (KeyError ''BigInteger'')) \<and>
   subtype_field_step example_domains True None (Some ''TYPE'') (IntV 1) (None, None)
       (example_field ''PARCEL_NO'' ''BigInteger'' 8 True False '''')
     = ([], Inl (KeyError ''BigInteger'')) \<and>
   ListDomains (table_world example_domains bigint_table []) (dirname parcels_path)
     = Inr example_domains \<and>
   Describe (table_world example_domains bigint_table []) parcels_path = Inr bigint_table \<and>
   subtypeFieldName bigint_table = '''' \<and>
   example_field ''PARCEL_NO'' ''BigInteger'' 8 True False '''' \<in> set (desc_fields bigint_table) \<and>
   desc_fields bigint_table
     = [example_field ''OBJECTID'' ''OID'' 4 False False '''']
       @ example_field ''PARCEL_NO'' ''BigInteger'' 8 True False '''' # [] \<and>
   (\<exists>r. snd (flat_field_step example_domains True (shapeFieldName bigint_table)
               (example_field ''OBJECTID'' ''OID'' 4 False False '''')) = Inr r) \<and>
   (\<exists>ex. snd (make_table_adapter_try (table_world example_domains bigint_table []) parcels_path True)
            = Inl ex \<and>
         make_table_adapter (table_world example_domains bigint_table []) parcels_path True
           = (fst (make_table_adapter_try (table_world example_domains bigint_table [])
                     parcels_path True) @ [LogError ex], None)) \<and>
   (\<exists>log. make_table_adapter (table_world example_domains bigint_table []) parcels_path True
           = (log @ [LogError (KeyError ''BigInteger'')], None)) \<and>
   ListDomains (table_world example_domains zoned_bigint_table zoned_bigint_subtypes)
       (dirname parcels_path) = Inr example_domains \<and>
   Describe (table_world example_domains zoned_bigint_table zoned_bigint_subtypes) parcels_path
     = Inr zoned_bigint_table \<and>
   subtypeFieldName zoned_bigint_table \<noteq> '''' \<and>
   ListSubtypes (table_world example_domains zoned_bigint_table zoned_bigint_subtypes) parcels_path
     = Inr zoned_bigint_subtypes \<and>
   (\<exists>ex. snd (make_table_adapter_try
                (table_world example_domains zoned_bigint_table zoned_bigint_subtypes)
                parcels_path True) = Inl ex \<and>
         make_table_adapter (table_world example_domains zoned_bigint_table zoned_bigint_subtypes)
             parcels_path True
           = (fst (make_table_adapter_try
                     (table_world example_domains zoned_bigint_table zoned_bigint_subtypes)
                     parcels_path True) @ [LogError ex], None)) \<and>
   (\<exists>log. make_table_adapter (table_world example_domains zoned_bigint_table zoned_bigint_subtypes)
             parcels_path True
           = (log @ [LogError (KeyError ''BigInteger'')], None))"
proof -
  let ?f = "example_field ''PARCEL_NO'' ''BigInteger'' 8 True False ''''"
  let ?oid = "example_field ''OBJECTID'' ''OID'' 4 False False ''''"
  let ?ty = "example_field ''TYPE'' ''Integer'' 4 True False ''''"
  let ?w = "table_world example_domains bigint_table []"
  let ?v = "table_world example_domains zoned_bigint_table zoned_bigint_subtypes"
  let ?sd = "\<lparr>st_Name = ''Residential'',
                st_FieldValues = [(''OBJECTID'', (None, None)),
                                  (''TYPE'', (Some (IntV 1), None)),
                                  (''PARCEL_NO'', (None, None))]\<rparr>"
  let ?stfn = "find (\<lambda>n. casefold n = casefold (subtypeFieldName zoned_bigint_table))
                 (map f_name (desc_fields zoned_bigint_table))"
  let ?zpre = "[((None, None), ?oid), ((Some (IntV 1), None), ?ty)]
                 :: ((pyval option \<times> domain option) \<times> field) list"
  have u: "field_type_to_pydantic_dict (f_type ?f) = None"
    by (simp add: example_field_def field_type_to_pydantic_dict_def)
  have ft: "f_type ?f = ''BigInteger''" by (simp add: example_field_def)
  have a1: "ListDomains ?w (dirname parcels_path) = Inr example_domains"
    by (simp add: table_world_def)
  have a2: "Describe ?w parcels_path = Inr bigint_table" by (simp add: table_world_def)
  have a3: "subtypeFieldName bigint_table = ''''" by (simp add: bigint_table_def)
  have a4: "?f \<in> set (desc_fields bigint_table)" by (simp add: bigint_table_def)
  have a5: "desc_fields bigint_table = [?oid] @ ?f # []" by (simp add: bigint_table_def)
  have a6': "\<exists>r. snd (flat_field_step example_domains True (shapeFieldName bigint_table) ?oid)
                  = Inr r"
    by (simp add: bigint_table_def ex_defs)
  then have a6: "\<forall>g \<in> set [?oid].
      \<exists>r. snd (flat_field_step example_domains True (shapeFieldName bigint_table) g) = Inr r"
    by simp
  note r = unmapped_type_aborts_synthesis [OF u, where dl = example_domains and s = True
             and sfn = None and stfn = "Some ''TYPE''" and code = "IntV 1" and st = "(None, None)"
             and w = ?w and p = parcels_path and d = bigint_table and pre = "[?oid]"
             and post = "[]", unfolded ft]
  from r have s1: "flat_field_step example_domains True None ?f = ([], Inl (KeyError ''BigInteger''))"
    by (rule conjunct1)
  from r have s2: "subtype_field_step example_domains True None (Some ''TYPE'') (IntV 1)
       (None, None) ?f = ([], Inl (KeyError ''BigInteger''))"
    by blast
  from r a2 a3 a4
  have c1: "\<exists>ex. snd (make_table_adapter_try ?w parcels_path True) = Inl ex \<and>
         make_table_adapter ?w parcels_path True
           = (fst (make_table_adapter_try ?w parcels_path True) @ [LogError ex], None)"
    by blast
  from r a1 a2 a3 a5 a6
  have c2: "\<exists>log. make_table_adapter ?w parcels_path True
           = (log @ [LogError (KeyError ''BigInteger'')], None)"
    by blast
  have b1: "ListDomains ?v (dirname parcels_path) = Inr example_domains"
    by (simp add: table_world_def)
  have b2: "Describe ?v parcels_path = Inr zoned_bigint_table" by (simp add: table_world_def)
  have b3: "subtypeFieldName zoned_bigint_table \<noteq> ''''" by (simp add: zoned_bigint_table_def)
  have b4: "ListSubtypes ?v parcels_path = Inr zoned_bigint_subtypes"
    by (simp add: table_world_def)
  have b4': "ListSubtypes ?v parcels_path = Inr ([] @ (IntV 1, ?sd) # [])"
    by (simp add: table_world_def zoned_bigint_subtypes_def)
  have b5: "(IntV 1, ?sd) \<in> set zoned_bigint_subtypes" by (simp add: zoned_bigint_subtypes_def)
  have b6: "st_fld_zip ?sd (desc_fields zoned_bigint_table) = ?zpre @ ((None, None), ?f) # []"
    by (simp add: st_fld_zip_def zoned_bigint_table_def)
  then have b7: "((None, None), ?f) \<in> set (st_fld_zip ?sd (desc_fields zoned_bigint_table))"
    by simp
  have b8: "\<forall>i \<in> set ([] :: (pyval \<times> subtype_dict) list).
      \<exists>r. snd (subtype_model (basename parcels_path) example_domains True
                  (shapeFieldName zoned_bigint_table) ?stfn (desc_fields zoned_bigint_table) i)
             = Inr r"
    by simp
  have b9: "\<forall>(t, g) \<in> set ?zpre.
      \<exists>r. snd (subtype_field_step example_domains True (shapeFieldName zoned_bigint_table)
                  ?stfn (IntV 1) t g) = Inr r"
    by (simp add: zoned_bigint_table_def ex_defs)
  note q = unmapped_type_aborts_synthesis [OF u, where dl = example_domains and s = True
             and sfn = None and stfn = ?stfn and code = "IntV 1" and st = "(None, None)"
             and w = ?v and p = parcels_path and d = zoned_bigint_table
             and sts = zoned_bigint_subtypes and c = "IntV 1" and sd = ?sd and st' = "(None, None)"
             and spre = "[]" and spost = "[]" and zpre = ?zpre and zpost = "[]", unfolded ft]
  from q b2 b3 b4 b5 b7
  have c3: "\<exists>ex. snd (make_table_adapter_try ?v parcels_path True) = Inl ex \<and>
         make_table_adapter ?v parcels_path True
           = (fst (make_table_adapter_try ?v parcels_path True) @ [LogError ex], None)"
    by blast
  have b10: "?stfn = ?stfn" ..
  from q [THEN conjunct2, THEN conjunct2, THEN conjunct2, THEN conjunct2, THEN mp]
       b1 b2 b3 b10 b4' b8 b6 b9
  have c4: "\<exists>log. make_table_adapter ?v parcels_path True
           = (log @ [LogError (KeyError ''BigInteger'')], None)"
    by blast
  have u': "field_type_to_pydantic_dict (f_type ?f) = None" by (rule u)
  from u' s1 s2 a1 a2 a3 a4 a5 a6' c1 c2 b1 b2 b3 b4 c3 c4 show ?thesis by (intro conjI)
qed

section \<open>Domains that yield no pair\<close>

text \<open>
  Claim C7. A coded-value domain whose code dictionary is empty is treated as absent:
  \<open>make_domain_tuple\<close> returns \<open>None\<close> for it, and the body of either field loop then
  does exactly what it does for the same field with no domain at all (no subtype
  domain, empty \<open>domain\<close> attribute). For a field the loop reaches (mapped type,
  editable, not the shape field, and in a subtype not the subtype field) the pair
  stored is the plain derivation: the field's own type, optional or not by the
  nullability rule, the length bound of a \<open>String\<close> field, and the static bounds of
  \<open>field_type_min_max\<close> for the field's type. And whenever \<open>make_domain_tuple\<close> does
  return a pair for a coded-value domain, the pair's literal set is the domain's code
  list and is not empty.
\<close>

theorem empty_coded_domain_falls_through:
  assumes "find (\<lambda>d. d_name d = n) dl = Some the_domain"
    and "d_domainType the_domain = ''CodedValue''"
  shows "(d_codedValues the_domain = Some [] \<longrightarrow>
            make_domain_tuple dl n nullable s ml = ([], Inr None) \<and>
            (flat_domain_name f = Some n \<longrightarrow>
               flat_field_step dl s sfn f = flat_field_step dl s sfn (f\<lparr>f_domain := ''''\<rparr>)) \<and>
            (subtype_domain_name sd f = Some n \<longrightarrow>
               subtype_field_step dl s sfn stfn code (dflt, sd) f =
               subtype_field_step dl s sfn stfn code (dflt, None) (f\<lparr>f_domain := ''''\<rparr>)) \<and>
            (field_type_to_pydantic_dict (f_type f) = Some T \<and> f_editable f \<and>
             \<not> is_shape_field sfn f \<longrightarrow>
               (flat_domain_name f = Some n \<longrightarrow>
                  flat_field_step dl s sfn f =
                    ([], Inr (Some (f_name f,
                       (if \<not> f_isNullable f \<and> s then Plain T else Optional (Plain T),
                        Field (if \<not> f_isNullable f \<and> s then NoDefault else DefaultFactoryNone)
                          (if f_type f = ''String'' then Some (f_length f) else None)
                          (map_option fst (field_type_min_max (f_type f)))
                          (map_option snd (field_type_min_max (f_type f)))))))) \<and>
               (subtype_domain_name sd f = Some n \<and> k \<noteq> f_name f \<longrightarrow>
                  subtype_field_step dl s sfn (Some k) code (dflt, sd) f =
                    ([], Inr (Some (f_name f,
                       (if \<not> f_isNullable f \<and> s then Plain T else Optional (Plain T),
                        Field (if \<not> f_isNullable f \<and> s then NoDefault else DefaultFactoryNone)
                          (if f_type f = ''String'' then Some (f_length f) else None)
                          (map_option fst (field_type_min_max (f_type f)))
                          (map_option snd (field_type_min_max (f_type f)))))))))) \<and>
         (snd (make_domain_tuple dl n nullable s ml) = Inr (Some t) \<longrightarrow>
            (\<exists>cv. d_codedValues the_domain = Some cv \<and> cv \<noteq> [] \<and>
                  (fst t = Literal (map fst cv) \<or> fst t = Optional (Literal (map fst cv)))))"
proof (intro conjI impI)
  assume e: "d_codedValues the_domain = Some []"
  have m: "make_domain_tuple dl n nullable' s ml' = ([], Inr None)" for nullable' ml'
    using make_domain_tuple_coded [OF assms e] by simp
  show "make_domain_tuple dl n nullable s ml = ([], Inr None)" by (rule m)
  {
    assume "flat_domain_name f = Some n"
    then show "flat_field_step dl s sfn f = flat_field_step dl s sfn (f\<lparr>f_domain := ''''\<rparr>)"
      by (rule flat_step_domain_absent_nolog) (rule m)
  }
  {
    assume "subtype_domain_name sd f = Some n"
    then show "subtype_field_step dl s sfn stfn code (dflt, sd) f =
               subtype_field_step dl s sfn stfn code (dflt, None) (f\<lparr>f_domain := ''''\<rparr>)"
      by (rule subtype_step_domain_absent_nolog) (rule m)
  }
  assume reached: "field_type_to_pydantic_dict (f_type f) = Some T \<and> f_editable f \<and>
             \<not> is_shape_field sfn f"
  {
    assume "flat_domain_name f = Some n"
    then have "domain_tuple_for dl s f (flat_domain_name f) = ([], Inr None)"
      by (simp add: domain_tuple_for_def m)
    from flat_step_fallback [OF this] reached
    show "flat_field_step dl s sfn f =
                    ([], Inr (Some (f_name f,
                       (if \<not> f_isNullable f \<and> s then Plain T else Optional (Plain T),
                        Field (if \<not> f_isNullable f \<and> s then NoDefault else DefaultFactoryNone)
                          (if f_type f = ''String'' then Some (f_length f) else None)
                          (map_option fst (field_type_min_max (f_type f)))
                          (map_option snd (field_type_min_max (f_type f)))))))"
      by blast
  }
  {
    assume a: "subtype_domain_name sd f = Some n \<and> k \<noteq> f_name f"
    then have "domain_tuple_for dl s f (subtype_domain_name sd f) = ([], Inr None)"
      by (simp add: domain_tuple_for_def m)
    from subtype_step_fallback [OF this] reached a
    show "subtype_field_step dl s sfn (Some k) code (dflt, sd) f =
                    ([], Inr (Some (f_name f,
                       (if \<not> f_isNullable f \<and> s then Plain T else Optional (Plain T),
                        Field (if \<not> f_isNullable f \<and> s then NoDefault else DefaultFactoryNone)
                          (if f_type f = ''String'' then Some (f_length f) else None)
                          (map_option fst (field_type_min_max (f_type f)))
                          (map_option snd (field_type_min_max (f_type f)))))))"
      by blast
  }
next
  assume r: "snd (make_domain_tuple dl n nullable s ml) = Inr (Some t)"
  show "\<exists>cv. d_codedValues the_domain = Some cv \<and> cv \<noteq> [] \<and>
             (fst t = Literal (map fst cv) \<or> fst t = Optional (Literal (map fst cv)))"
  proof (cases "d_codedValues the_domain")
    case None
    from make_domain_tuple_coded_missing [OF assms None] r show ?thesis by simp
  next
    case (Some cv)
    from make_domain_tuple_coded [OF assms Some, of nullable s ml] r
    have "cv \<noteq> [] \<and> (fst t = Literal (map fst cv) \<or> fst t = Optional (Literal (map fst cv)))"
      by (cases "cv = []"; cases "\<not> nullable \<and> s") auto
    with Some show ?thesis by simp
  qed
qed

theorem empty_coded_domain_falls_through_witness:
  "find (\<lambda>d. d_name d = ''NoCodes'') example_domains = Some no_codes \<and>
   d_domainType no_codes = ''CodedValue'' \<and> d_codedValues no_codes = Some [] \<and>
   flat_domain_name (example_field ''LANDUSE'' ''Integer'' 4 True False ''NoCodes'') = Some ''NoCodes'' \<and>
   subtype_domain_name None (example_field ''LANDUSE'' ''Integer'' 4 True False ''NoCodes'')
     = Some ''NoCodes'' \<and>
   field_type_to_pydantic_dict (f_type (example_field ''LANDUSE'' ''Integer'' 4 True False ''NoCodes''))
     = Some PyInt \<and>
   f_editable (example_field ''LANDUSE'' ''Integer'' 4 True False ''NoCodes'') \<and>
   \<not> is_shape_field None (example_field ''LANDUSE'' ''Integer'' 4 True False ''NoCodes'') \<and>
   ''TYPE'' \<noteq> f_name (example_field ''LANDUSE'' ''Integer'' 4 True False ''NoCodes'') \<and>
   make_domain_tuple example_domains ''NoCodes'' False True None = ([], Inr None) \<and>
   flat_field_step example_domains True None (example_field ''LANDUSE'' ''Integer'' 4 True False ''NoCodes'')
     = flat_field_step example_domains True None
         ((example_field ''LANDUSE'' ''Integer'' 4 True False ''NoCodes'')\<lparr>f_domain := ''''\<rparr>) \<and>
   flat_field_step example_domains True None (example_field ''LANDUSE'' ''Integer'' 4 True False ''NoCodes'')
     = ([], Inr (Some (''LANDUSE'',
          (Plain PyInt, Field NoDefault None (Some (NInt (-2147483648))) (Some (NInt 2147483647)))))) \<and>
   subtype_field_step example_domains True None (Some ''TYPE'') (IntV 1) (None, None)
       (example_field ''LANDUSE'' ''Integer'' 4 True False ''NoCodes'')
     = ([], Inr (Some (''LANDUSE'',
          (Plain PyInt, Field NoDefault None (Some (NInt (-2147483648))) (Some (NInt 2147483647)))))) \<and>
   find (\<lambda>d. d_name d = ''TypeCodes'') example_domains = Some type_codes \<and>
   d_domainType type_codes = ''CodedValue'' \<and>
   snd (make_domain_tuple example_domains ''TypeCodes'' False True None)
     = Inr (Some (Literal [IntV 1, IntV 2], Field NoDefault None None None)) \<and>
   (\<exists>cv. d_codedValues type_codes = Some cv \<and> cv \<noteq> [] \<and>
      (fst (Literal [IntV 1, IntV 2], Field NoDefault None None None) = Literal (map fst cv) \<or>
       fst (Literal [IntV 1, IntV 2], Field NoDefault None None None)
         = Optional (Literal (map fst cv))))"
proof -
  let ?f = "example_field ''LANDUSE'' ''Integer'' 4 True False ''NoCodes''"
  let ?t = "(Literal [IntV 1, IntV 2], Field NoDefault None None None)"
  let ?p = "(Plain PyInt, Field NoDefault None (Some (NInt (-2147483648))) (Some (NInt 2147483647)))"
  have a: "find (\<lambda>d. d_name d = ''NoCodes'') example_domains = Some no_codes"
    by (simp add: example_domains_def type_codes_def percent_def no_codes_def)
  have b: "d_domainType no_codes = ''CodedValue''" by (simp add: no_codes_def)
  have c: "d_codedValues no_codes = Some []" by (simp add: no_codes_def)
  have d: "flat_domain_name ?f = Some ''NoCodes''"
    by (simp add: flat_domain_name_def example_field_def)
  have d2: "subtype_domain_name None ?f = Some ''NoCodes''"
    by (simp add: subtype_domain_name_def example_field_def)
  have ty: "field_type_to_pydantic_dict (f_type ?f) = Some PyInt"
    by (simp add: field_type_to_pydantic_dict_def example_field_def)
  have ed: "f_editable ?f" by (simp add: example_field_def)
  have ns: "\<not> is_shape_field None ?f" by (simp add: is_shape_field_def)
  have ne: "''TYPE'' \<noteq> f_name ?f" by (simp add: example_field_def)
  note r = empty_coded_domain_falls_through [where nullable = False and s = True and ml = None
             and f = ?f and sfn = None and sd = None and T = PyInt and k = "''TYPE''"
             and code = "IntV 1" and dflt = None, OF a b]
  from r c have e: "make_domain_tuple example_domains ''NoCodes'' False True None = ([], Inr None)"
    by blast
  from r c d have g: "flat_field_step example_domains True None ?f
     = flat_field_step example_domains True None (?f\<lparr>f_domain := ''''\<rparr>)"
    by blast
  from r c d ty ed ns
  have "flat_field_step example_domains True None ?f =
          ([], Inr (Some (f_name ?f,
             (if \<not> f_isNullable ?f \<and> True then Plain PyInt else Optional (Plain PyInt),
              Field (if \<not> f_isNullable ?f \<and> True then NoDefault else DefaultFactoryNone)
                (if f_type ?f = ''String'' then Some (f_length ?f) else None)
                (map_option fst (field_type_min_max (f_type ?f)))
                (map_option snd (field_type_min_max (f_type ?f)))))))"
    by blast
  then have h1: "flat_field_step example_domains True None ?f = ([], Inr (Some (''LANDUSE'', ?p)))"
    by (simp add: example_field_def field_type_min_max_def)
  from r c d2 ty ed ns ne
  have "subtype_field_step example_domains True None (Some ''TYPE'') (IntV 1) (None, None) ?f =
          ([], Inr (Some (f_name ?f,
             (if \<not> f_isNullable ?f \<and> True then Plain PyInt else Optional (Plain PyInt),
              Field (if \<not> f_isNullable ?f \<and> True then NoDefault else DefaultFactoryNone)
                (if f_type ?f = ''String'' then Some (f_length ?f) else None)
                (map_option fst (field_type_min_max (f_type ?f)))
                (map_option snd (field_type_min_max (f_type ?f)))))))"
    by blast
  then have h2: "subtype_field_step example_domains True None (Some ''TYPE'') (IntV 1) (None, None) ?f
       = ([], Inr (Some (''LANDUSE'', ?p)))"
    by (simp add: example_field_def field_type_min_max_def)
  have a': "find (\<lambda>d. d_name d = ''TypeCodes'') example_domains = Some type_codes"
    by (simp add: example_domains_def type_codes_def)
  have b': "d_domainType type_codes = ''CodedValue''" by (simp add: type_codes_def)
  have h: "snd (make_domain_tuple example_domains ''TypeCodes'' False True None) = Inr (Some ?t)"
    by (simp add: make_domain_tuple_def example_domains_def type_codes_def)
  note r' = empty_coded_domain_falls_through [where nullable = False and s = True and ml = None
         and t = ?t, OF a' b']
  from r' h have l: "\<exists>cv. d_codedValues type_codes = Some cv \<and> cv \<noteq> [] \<and>
      (fst ?t = Literal (map fst cv) \<or> fst ?t = Optional (Literal (map fst cv)))"
    by (rule conjunct2 [THEN mp])
  from a b c d d2 ty ed ns ne e g h1 h2 a' b' h l show ?thesis by (intro conjI)
qed

text \<open>
  Claim C8. When no domain of the catalog has the requested name, \<open>make_domain_tuple\<close>
  writes one warning and returns \<open>None\<close>, without raising. The body of either field
  loop then yields what it yields for the same field with no domain at all, and
  raises nothing for a field of a mapped type. For a field the loop reaches (mapped
  type, editable, not the shape field, and in a subtype not the subtype field) the
  result is that one warning together with the plain derivation: the field's own
  type, optional or not by the nullability rule, the length bound of a \<open>String\<close>
  field, and the static bounds of \<open>field_type_min_max\<close> for the field's type.
\<close>

theorem domain_lookup_miss_falls_back:
  assumes "find (\<lambda>d. d_name d = n) dl = None"
  shows "make_domain_tuple dl n nullable s ml =
           ([LogWarning (''Could not find domain named :'' @ n)], Inr None) \<and>
         (flat_domain_name f = Some n \<longrightarrow>
            snd (flat_field_step dl s sfn f) = snd (flat_field_step dl s sfn (f\<lparr>f_domain := ''''\<rparr>)) \<and>
            (field_type_to_pydantic_dict (f_type f) \<noteq> None \<longrightarrow>
               (\<exists>r. snd (flat_field_step dl s sfn f) = Inr r))) \<and>
         (subtype_domain_name sd f = Some n \<longrightarrow>
            snd (subtype_field_step dl s sfn stfn code (dflt, sd) f) =
            snd (subtype_field_step dl s sfn stfn code (dflt, None) (f\<lparr>f_domain := ''''\<rparr>)) \<and>
            (field_type_to_pydantic_dict (f_type f) \<noteq> None \<longrightarrow>
               (\<exists>r. snd (subtype_field_step dl s sfn (Some k) code (dflt, sd) f) = Inr r))) \<and>
         (field_type_to_pydantic_dict (f_type f) = Some T \<and> f_editable f \<and>
          \<not> is_shape_field sfn f \<longrightarrow>
            (flat_domain_name f = Some n \<longrightarrow>
               flat_field_step dl s sfn f =
                 ([LogWarning (''Could not find domain named :'' @ n)],
                  Inr (Some (f_name f,
                    (if \<not> f_isNullable f \<and> s then Plain T else Optional (Plain T),
                     Field (if \<not> f_isNullable f \<and> s then NoDefault else DefaultFactoryNone)
                       (if f_type f = ''String'' then Some (f_length f) else None)
                       (map_option fst (field_type_min_max (f_type f)))
                       (map_option snd (field_type_min_max (f_type f)))))))) \<and>
            (subtype_domain_name sd f = Some n \<and> k \<noteq> f_name f \<longrightarrow>
               subtype_field_step dl s sfn (Some k) code (dflt, sd) f =
                 ([LogWarning (''Could not find domain named :'' @ n)],
                  Inr (Some (f_name f,
                    (if \<not> f_isNullable f \<and> s then Plain T else Optional (Plain T),
                     Field (if \<not> f_isNullable f \<and> s then NoDefault else DefaultFactoryNone)
                       (if f_type f = ''String'' then Some (f_length f) else None)
                       (map_option fst (field_type_min_max (f_type f)))
                       (map_option snd (field_type_min_max (f_type f)))))))))"
proof (intro conjI impI)
  let ?w = "LogWarning (''Could not find domain named :'' @ n)"
  have m: "make_domain_tuple dl n nullable' s ml' = ([?w], Inr None)" for nullable' ml'
    by (rule make_domain_tuple_miss [OF assms])
  show "make_domain_tuple dl n nullable s ml = ([?w], Inr None)" by (rule m)
  {
    assume fd: "flat_domain_name f = Some n"
    show "snd (flat_field_step dl s sfn f) = snd (flat_field_step dl s sfn (f\<lparr>f_domain := ''''\<rparr>))"
      by (rule flat_step_domain_absent [OF fd]) (rule m)
    assume "field_type_to_pydantic_dict (f_type f) \<noteq> None"
    then obtain T' where T': "field_type_to_pydantic_dict (f_type f) = Some T'" by blast
    have "domain_tuple_for dl s f (flat_domain_name f) = ([?w], Inr None)"
      using fd by (simp add: domain_tuple_for_def m)
    from flat_step_no_raise [OF this T']
    show "\<exists>r. snd (flat_field_step dl s sfn f) = Inr r" .
  }
  {
    assume sdn: "subtype_domain_name sd f = Some n"
    show "snd (subtype_field_step dl s sfn stfn code (dflt, sd) f) =
          snd (subtype_field_step dl s sfn stfn code (dflt, None) (f\<lparr>f_domain := ''''\<rparr>))"
      by (rule subtype_step_domain_absent [OF sdn]) (rule m)
    assume "field_type_to_pydantic_dict (f_type f) \<noteq> None"
    then obtain T' where T': "field_type_to_pydantic_dict (f_type f) = Some T'" by blast
    have "domain_tuple_for dl s f (subtype_domain_name sd f) = ([?w], Inr None)"
      using sdn by (simp add: domain_tuple_for_def m)
    from subtype_step_no_raise [OF this T']
    show "\<exists>r. snd (subtype_field_step dl s sfn (Some k) code (dflt, sd) f) = Inr r" .
  }
  assume reached: "field_type_to_pydantic_dict (f_type f) = Some T \<and> f_editable f \<and>
             \<not> is_shape_field sfn f"
  {
    assume "flat_domain_name f = Some n"
    then have "domain_tuple_for dl s f (flat_domain_name f) = ([?w], Inr None)"
      by (simp add: domain_tuple_for_def m)
    from flat_step_fallback [OF this] reached
    show "flat_field_step dl s sfn f =
                 ([?w],
                  Inr (Some (f_name f,
                    (if \<not> f_isNullable f \<and> s then Plain T else Optional (Plain T),
                     Field (if \<not> f_isNullable f \<and> s then NoDefault else DefaultFactoryNone)
                       (if f_type f = ''String'' then Some (f_length f) else None)
                       (map_option fst (field_type_min_max (f_type f)))
                       (map_option snd (field_type_min_max (f_type f)))))))"
      by blast
  }
  {
    assume a: "subtype_domain_name sd f = Some n \<and> k \<noteq> f_name f"
    then have "domain_tuple_for dl s f (subtype_domain_name sd f) = ([?w], Inr None)"
      by (simp add: domain_tuple_for_def m)
    from subtype_step_fallback [OF this] reached a
    show "subtype_field_step dl s sfn (Some k) code (dflt, sd) f =
                 ([?w],
                  Inr (Some (f_name f,
                    (if \<not> f_isNullable f \<and> s then Plain T else Optional (Plain T),
                     Field (if \<not> f_isNullable f \<and> s then NoDefault else DefaultFactoryNone)
                       (if f_type f = ''String'' then Some (f_length f) else None)
                       (map_option fst (field_type_min_max (f_type f)))
                       (map_option snd (field_type_min_max (f_type f)))))))"
      by blast
  }
qed

theorem domain_lookup_miss_falls_back_witness:
  "find (\<lambda>d. d_name d = ''Nope'') example_domains = None \<and>
   flat_domain_name (example_field ''NAME'' ''String'' 10 True False ''Nope'') = Some ''Nope'' \<and>
   subtype_domain_name None (example_field ''NAME'' ''String'' 10 True False ''Nope'') = Some ''Nope'' \<and>
   field_type_to_pydantic_dict (f_type (example_field ''NAME'' ''String'' 10 True False ''Nope''))
     = Some PyStr \<and>
   field_type_to_pydantic_dict (f_type (example_field ''NAME'' ''String'' 10 True False ''Nope''))
     \<noteq> None \<and>
   f_editable (example_field ''NAME'' ''String'' 10 True False ''Nope'') \<and>
   \<not> is_shape_field None (example_field ''NAME'' ''String'' 10 True False ''Nope'') \<and>
   ''TYPE'' \<noteq> f_name (example_field ''NAME'' ''String'' 10 True False ''Nope'') \<and>
   make_domain_tuple example_domains ''Nope'' False True (Some 10)
     = ([LogWarning ''Could not find domain named :Nope''], Inr None) \<and>
   snd (flat_field_step example_domains True None (example_field ''NAME'' ''String'' 10 True False ''Nope''))
     = snd (flat_field_step example_domains True None
             ((example_field ''NAME'' ''String'' 10 True False ''Nope'')\<lparr>f_domain := ''''\<rparr>)) \<and>
   (\<exists>r. snd (flat_field_step example_domains True None
             (example_field ''NAME'' ''String'' 10 True False ''Nope'')) = Inr r) \<and>
   snd (subtype_field_step example_domains True None (Some ''TYPE'') (IntV 1) (None, None)
         (example_field ''NAME'' ''String'' 10 True False ''Nope''))
     = snd (subtype_field_step example_domains True None (Some ''TYPE'') (IntV 1) (None, None)
         ((example_field ''NAME'' ''String'' 10 True False ''Nope'')\<lparr>f_domain := ''''\<rparr>)) \<and>
   (\<exists>r. snd (subtype_field_step example_domains True None (Some ''TYPE'') (IntV 1) (None, None)
         (example_field ''NAME'' ''String'' 10 True False ''Nope'')) = Inr r) \<and>
   flat_field_step example_domains True None (example_field ''NAME'' ''String'' 10 True False ''Nope'')
     = ([LogWarning ''Could not find domain named :Nope''],
        Inr (Some (''NAME'', (Plain PyStr, Field NoDefault (Some 10) None None)))) \<and>
   subtype_field_step example_domains True None (Some ''TYPE'') (IntV 1) (None, None)
       (example_field ''NAME'' ''String'' 10 True False ''Nope'')
     = ([LogWarning ''Could not find domain named :Nope''],
        Inr (Some (''NAME'', (Plain PyStr, Field NoDefault (Some 10) None None))))"
proof -
  let ?f = "example_field ''NAME'' ''String'' 10 True False ''Nope''"
  let ?p = "(Plain PyStr, Field NoDefault (Some 10) None None)"
  let ?w = "LogWarning (''Could not find domain named :'' @ ''Nope'')"
  have a: "find (\<lambda>d. d_name d = ''Nope'') example_domains = None"
    by (simp add: example_domains_def type_codes_def percent_def no_codes_def)
  have b: "flat_domain_name ?f = Some ''Nope''"
    by (simp add: flat_domain_name_def example_field_def)
  have d: "subtype_domain_name None ?f = Some ''Nope''"
    by (simp add: subtype_domain_name_def example_field_def)
  have ty: "field_type_to_pydantic_dict (f_type ?f) = Some PyStr"
    by (simp add: field_type_to_pydantic_dict_def example_field_def)
  then have c: "field_type_to_pydantic_dict (f_type ?f) \<noteq> None" by simp
  have ed: "f_editable ?f" by (simp add: example_field_def)
  have ns: "\<not> is_shape_field None ?f" by (simp add: is_shape_field_def)
  have ne: "''TYPE'' \<noteq> f_name ?f" by (simp add: example_field_def)
  note r = domain_lookup_miss_falls_back [where nullable = False and s = True
             and ml = "Some 10" and f = ?f and sfn = None and sd = None and T = PyStr
             and stfn = "Some ''TYPE''" and k = "''TYPE''" and code = "IntV 1" and dflt = None,
             OF a]
  have e: "make_domain_tuple example_domains ''Nope'' False True (Some 10) = ([?w], Inr None)"
    using r by blast
  then have e': "make_domain_tuple example_domains ''Nope'' False True (Some 10)
     = ([LogWarning ''Could not find domain named :Nope''], Inr None)" by simp
  have g: "snd (flat_field_step example_domains True None ?f)
     = snd (flat_field_step example_domains True None (?f\<lparr>f_domain := ''''\<rparr>))"
    using r b by blast
  have h: "\<exists>r. snd (flat_field_step example_domains True None ?f) = Inr r"
    using r b c by blast
  have k: "snd (subtype_field_step example_domains True None (Some ''TYPE'') (IntV 1) (None, None) ?f)
     = snd (subtype_field_step example_domains True None (Some ''TYPE'') (IntV 1) (None, None)
         (?f\<lparr>f_domain := ''''\<rparr>))"
    using r d by blast
  have k': "\<exists>r. snd (subtype_field_step example_domains True None (Some ''TYPE'') (IntV 1)
         (None, None) ?f) = Inr r"
    using r d c by blast
  from r b ty ed ns
  have "flat_field_step example_domains True None ?f =
          ([?w], Inr (Some (f_name ?f,
             (if \<not> f_isNullable ?f \<and> True then Plain PyStr else Optional (Plain PyStr),
              Field (if \<not> f_isNullable ?f \<and> True then NoDefault else DefaultFactoryNone)
                (if f_type ?f = ''String'' then Some (f_length ?f) else None)
                (map_option fst (field_type_min_max (f_type ?f)))
                (map_option snd (field_type_min_max (f_type ?f)))))))"
    by blast
  then have h1: "flat_field_step example_domains True None ?f
     = ([LogWarning ''Could not find domain named :Nope''], Inr (Some (''NAME'', ?p)))"
    by (simp add: example_field_def field_type_min_max_def)
  from r d ty ed ns ne
  have "subtype_field_step example_domains True None (Some ''TYPE'') (IntV 1) (None, None) ?f =
          ([?w], Inr (Some (f_name ?f,
             (if \<not> f_isNullable ?f \<and> True then Plain PyStr else Optional (Plain PyStr),
              Field (if \<not> f_isNullable ?f \<and> True then NoDefault else DefaultFactoryNone)
                (if f_type ?f = ''String'' then Some (f_length ?f) else None)
                (map_option fst (field_type_min_max (f_type ?f)))
                (map_option snd (field_type_min_max (f_type ?f)))))))"
    by blast
  then have h2: "subtype_field_step example_domains True None (Some ''TYPE'') (IntV 1) (None, None) ?f
     = ([LogWarning ''Could not find domain named :Nope''], Inr (Some (''NAME'', ?p)))"
    by (simp add: example_field_def field_type_min_max_def)
  from a b d ty c ed ns ne e' g h k k' h1 h2 show ?thesis by (intro conjI)
qed

section \<open>The shape field and the fields left out\<close>

text \<open>
  Claim C5, as stated, at a concrete input: the pair stored for the shape field is
  \<open>(Any, Field())\<close>. It is required, but its annotation \<open>Any\<close> admits every value,
  the null value included, so a record that supplies null for the shape field is not
  rejected by this pair.
\<close>

theorem shape_node_admits_null:
  "snd (make_table_adapter (table_world example_domains shape_table []) parcels_path True) =
     Some (TableAdapter (Model (basename parcels_path)
        [(''Shape'', (AnyT, Field NoDefault None None None)),
         (''NAME'', (Plain PyStr, Field NoDefault (Some 10) None None))])) \<and>
   node_nullable (AnyT, Field NoDefault None None None)"
  by (simp add: shape_table_adapter shape_tuple_def node_nullable_def)

text \<open>
  Claim C5, amended. For every table with a shape field, in every model of the
  adapter returned (the model of the table, or of each subtype), the shape field's
  entry is the pair \<open>(Any, Field())\<close>: required, with no default, no type and no
  constraint, whatever \<open>insert_explicit\<close> is. No later assignment of the field loop
  replaces it.
\<close>

theorem shape_field_required_any:
  assumes "snd (make_table_adapter w p s) = Some a" and "m \<in> set (adapter_models a)"
    and "Describe w p = Inr d" and "shapeFieldName d = Some sn"
  shows "map_of (model_params m) sn = Some (AnyT, Field NoDefault None None None) \<and>
         node_required (AnyT, Field NoDefault None None None)"
proof
  from adapter_model_source [OF assms(1-3)] assms(4)
  obtain dl where
    "snd (fields_loop (flat_field_step dl s (Some sn)) (desc_fields d)
            (initial_params (Some sn))) = Inr (model_params m) \<or>
     (\<exists>stfn code sd.
         snd (fields_loop (\<lambda>(st_tuple, field).
                  subtype_field_step dl s (Some sn) stfn code st_tuple field)
                (st_fld_zip sd (desc_fields d)) (initial_params (Some sn)))
           = Inr (model_params m))"
    by auto
  then have "map_of (model_params m) sn = Some shape_tuple"
    using flat_loop_shape subtype_loop_shape by blast
  then show "map_of (model_params m) sn = Some (AnyT, Field NoDefault None None None)"
    by (simp add: shape_tuple_def)
  show "node_required (AnyT, Field NoDefault None None None)"
    by (simp add: node_required_def Field_def)
qed

theorem shape_field_required_any_witness:
  "snd (make_table_adapter (table_world example_domains shape_table []) parcels_path False) =
     Some (TableAdapter (Model (basename parcels_path)
        [(''Shape'', shape_tuple),
         (''NAME'', (Optional (Plain PyStr), Field DefaultFactoryNone (Some 10) None None))])) \<and>
   Describe (table_world example_domains shape_table []) parcels_path = Inr shape_table \<and>
   shapeFieldName shape_table = Some ''Shape'' \<and>
   map_of [(''Shape'', shape_tuple),
           (''NAME'', (Optional (Plain PyStr), Field DefaultFactoryNone (Some 10) None None))]
      ''Shape'' = Some (AnyT, Field NoDefault None None None) \<and>
   node_required (AnyT, Field NoDefault None None None)"
proof -
  let ?w = "table_world example_domains shape_table []"
  let ?ps = "[(''Shape'', shape_tuple),
           (''NAME'', (Optional (Plain PyStr), Field DefaultFactoryNone (Some 10) None None))]"
  let ?m = "Model (basename parcels_path) ?ps"
  have a: "snd (make_table_adapter ?w parcels_path False) = Some (TableAdapter ?m)"
    by (simp add: shape_table_adapter)
  have b: "?m \<in> set (adapter_models (TableAdapter ?m))" by simp
  have c: "Describe ?w parcels_path = Inr shape_table" by (simp add: table_world_def)
  have d: "shapeFieldName shape_table = Some ''Shape''" by (simp add: shape_table_def)
  from shape_field_required_any [OF a b c d]
  have e: "map_of (model_params ?m) ''Shape'' = Some (AnyT, Field NoDefault None None None) \<and>
         node_required (AnyT, Field NoDefault None None None)" .
  have f: "model_params ?m = ?ps" by simp
  from e have g: "map_of ?ps ''Shape'' = Some (AnyT, Field NoDefault None None None)"
    unfolding f by (rule conjunct1)
  from e have h: "node_required (AnyT, Field NoDefault None None None)" by (rule conjunct2)
  from a c d g h show ?thesis by (intro conjI)
qed

text \<open>
  Claim C9, as stated, at a concrete input: the shape field of the table is not
  editable, and its name is still a key of the model, because the shape field's pair
  is stored before the field loop without a look at the field.
\<close>

theorem non_editable_shape_field_appears:
  "Describe (table_world example_domains locked_shape_table []) parcels_path
     = Inr locked_shape_table \<and>
   example_field ''Shape'' ''Geometry'' 0 False True '''' \<in> set (desc_fields locked_shape_table) \<and>
   \<not> f_editable (example_field ''Shape'' ''Geometry'' 0 False True '''') \<and>
   snd (make_table_adapter (table_world example_domains locked_shape_table []) parcels_path True) =
     Some (TableAdapter (Model (basename parcels_path)
        [(''Shape'', shape_tuple),
         (''NAME'', (Plain PyStr, Field NoDefault (Some 10) None None))])) \<and>
   f_name (example_field ''Shape'' ''Geometry'' 0 False True '''')
     \<in> fst ` set [(''Shape'', shape_tuple),
                   (''NAME'', (Plain PyStr, Field NoDefault (Some 10) None None))]"
  by (simp add: locked_shape_table_adapter)
     (simp add: table_world_def locked_shape_table_def example_field_def)

text \<open>
  Claim C9, amended. In every model of the adapter returned, every key is the shape
  field's name or the name of an editable field of the table. So, field names being
  distinct, no field that is not editable appears in a model, the shape field apart:
  that one is always added when the table has one, whatever its editable flag.
\<close>

theorem schema_keys_editable_or_shape:
  assumes "snd (make_table_adapter w p s) = Some a" and "m \<in> set (adapter_models a)"
    and "Describe w p = Inr d"
  shows "(\<forall>k \<in> fst ` set (model_params m).
            shapeFieldName d = Some k \<or>
            (\<exists>f \<in> set (desc_fields d). f_name f = k \<and> f_editable f)) \<and>
         (distinct (map f_name (desc_fields d)) \<longrightarrow>
            (\<forall>f \<in> set (desc_fields d).
               \<not> f_editable f \<and> shapeFieldName d \<noteq> Some (f_name f) \<longrightarrow>
               f_name f \<notin> fst ` set (model_params m)))"
proof -
  have keys: "shapeFieldName d = Some k \<or>
            (\<exists>f \<in> set (desc_fields d). f_name f = k \<and> f_editable f)"
    if k: "k \<in> fst ` set (model_params m)" for k
  proof -
    from adapter_model_source [OF assms]
    obtain dl where
      "snd (fields_loop (flat_field_step dl s (shapeFieldName d)) (desc_fields d)
              (initial_params (shapeFieldName d))) = Inr (model_params m) \<or>
       (\<exists>stfn code sd.
           snd (fields_loop (\<lambda>(st_tuple, field).
                    subtype_field_step dl s (shapeFieldName d) stfn code st_tuple field)
                  (st_fld_zip sd (desc_fields d)) (initial_params (shapeFieldName d)))
             = Inr (model_params m))"
      by auto
    then have "shapeFieldName d = Some k \<or>
         (\<exists>f \<in> set (desc_fields d). f_name f = k \<and> f_editable f \<and>
            \<not> is_shape_field (shapeFieldName d) f)"
      using flat_loop_keys [OF _ k] subtype_loop_keys [OF _ k] by blast
    then show ?thesis by blast
  qed
  show ?thesis
  proof (intro conjI ballI impI)
    fix k assume "k \<in> fst ` set (model_params m)"
    then show "shapeFieldName d = Some k \<or>
            (\<exists>f \<in> set (desc_fields d). f_name f = k \<and> f_editable f)" by (rule keys)
  next
    fix f
    assume dist: "distinct (map f_name (desc_fields d))" and f: "f \<in> set (desc_fields d)"
      and ne: "\<not> f_editable f \<and> shapeFieldName d \<noteq> Some (f_name f)"
    show "f_name f \<notin> fst ` set (model_params m)"
    proof
      assume "f_name f \<in> fst ` set (model_params m)"
      from keys [OF this] ne obtain g where g: "g \<in> set (desc_fields d)" "f_name g = f_name f"
        "f_editable g" by blast
      from dist have "inj_on f_name (set (desc_fields d))" by (simp add: distinct_map)
      with f g have "g = f" by (auto dest: inj_onD)
      with g ne show False by simp
    qed
  qed
qed

theorem schema_keys_editable_or_shape_witness:
  "snd (make_table_adapter (table_world example_domains shape_table []) parcels_path True) =
     Some (TableAdapter (Model (basename parcels_path)
        [(''Shape'', shape_tuple),
         (''NAME'', (Plain PyStr, Field NoDefault (Some 10) None None))])) \<and>
   Describe (table_world example_domains shape_table []) parcels_path = Inr shape_table \<and>
   distinct (map f_name (desc_fields shape_table)) \<and>
   example_field ''OBJECTID'' ''OID'' 4 False False '''' \<in> set (desc_fields shape_table) \<and>
   \<not> f_editable (example_field ''OBJECTID'' ''OID'' 4 False False '''') \<and>
   shapeFieldName shape_table \<noteq> Some (f_name (example_field ''OBJECTID'' ''OID'' 4 False False '''')) \<and>
   f_name (example_field ''OBJECTID'' ''OID'' 4 False False '''')
     \<notin> fst ` set [(''Shape'', shape_tuple),
                   (''NAME'', (Plain PyStr, Field NoDefault (Some 10) None None))] \<and>
   ''NAME'' \<in> fst ` set [(''Shape'', shape_tuple),
                   (''NAME'', (Plain PyStr, Field NoDefault (Some 10) None None))] \<and>
   (shapeFieldName shape_table = Some ''NAME'' \<or>
    (\<exists>f \<in> set (desc_fields shape_table). f_name f = ''NAME'' \<and> f_editable f))"
proof -
  let ?w = "table_world example_domains shape_table []"
  let ?ps = "[(''Shape'', shape_tuple),
              (''NAME'', (Plain PyStr, Field NoDefault (Some 10) None None))]"
  let ?m = "Model (basename parcels_path) ?ps"
  let ?oid = "example_field ''OBJECTID'' ''OID'' 4 False False ''''"
  have a: "snd (make_table_adapter ?w parcels_path True) = Some (TableAdapter ?m)"
    by (simp add: shape_table_adapter)
  have b: "?m \<in> set (adapter_models (TableAdapter ?m))" by simp
  have c: "Describe ?w parcels_path = Inr shape_table" by (simp add: table_world_def)
  have d: "distinct (map f_name (desc_fields shape_table))"
    by (simp add: shape_table_def example_field_def)
  have e: "?oid \<in> set (desc_fields shape_table)" by (simp add: shape_table_def)
  have f: "\<not> f_editable ?oid" by (simp add: example_field_def)
  have g: "shapeFieldName shape_table \<noteq> Some (f_name ?oid)"
    by (simp add: shape_table_def example_field_def)
  have mp: "model_params ?m = ?ps" by simp
  note r = schema_keys_editable_or_shape [OF a b c, unfolded mp]
  from r d e f g have h: "f_name ?oid \<notin> fst ` set ?ps" by blast
  have i: "''NAME'' \<in> fst ` set ?ps" by simp
  from r i have j: "shapeFieldName shape_table = Some ''NAME'' \<or>
    (\<exists>f \<in> set (desc_fields shape_table). f_name f = ''NAME'' \<and> f_editable f)" by blast
  from a c d e f g h i j show ?thesis by (intro conjI)
qed

section \<open>Length bounds\<close>

text \<open>
  Claim C6, as stated, at a concrete input: a field of type \<open>Text\<close> with length 10
  and no domain gets a string pair with no length bound.
\<close>

theorem text_field_has_no_length_bound:
  "snd (domain_tuple_for example_domains True (example_field ''NOTE'' ''Text'' 10 True False '''')
          (flat_domain_name (example_field ''NOTE'' ''Text'' 10 True False ''''))) = Inr None \<and>
   flat_field_step example_domains True None (example_field ''NOTE'' ''Text'' 10 True False '''')
     = ([], Inr (Some (''NOTE'', (Plain PyStr, Field NoDefault None None None)))) \<and>
   fi_max_length (snd (Plain PyStr, Field NoDefault None None None))
     \<noteq> Some (f_length (example_field ''NOTE'' ''Text'' 10 True False ''''))"
  by (simp add: ex_defs)

text \<open>
  Claim C6, amended. For a field with no usable domain (no domain name, or
  \<open>make_domain_tuple\<close> returned \<open>None\<close>) that is not the subtype field, the pair's
  length bound is the field's length when the field's type is \<open>String\<close>, and there
  is none for every other type, \<open>Text\<close> included; for the types \<open>String\<close> and
  \<open>Text\<close> the pair's type is \<open>str\<close> (optional or not).
\<close>

theorem length_bound_for_String_only:
  assumes "snd (flat_field_step dl s sfn f) = Inr (Some (k, t)) \<and>
           snd (domain_tuple_for dl s f (flat_domain_name f)) = Inr None \<or>
           snd (subtype_field_step dl s sfn stfn code st f) = Inr (Some (k, t)) \<and>
           snd (domain_tuple_for dl s f (subtype_domain_name (snd st) f)) = Inr None \<and>
           stfn \<noteq> Some (f_name f)"
  shows "fi_max_length (snd t) = (if f_type f = ''String'' then Some (f_length f) else None) \<and>
         (f_type f = ''String'' \<or> f_type f = ''Text'' \<longrightarrow>
            fst t = Plain PyStr \<or> fst t = Optional (Plain PyStr))"
proof -
  have "\<exists>T. field_type_to_pydantic_dict (f_type f) = Some T \<and>
            t = plain_tuple f T s (field_max_length f)"
    using assms
  proof
    assume a: "snd (flat_field_step dl s sfn f) = Inr (Some (k, t)) \<and>
           snd (domain_tuple_for dl s f (flat_domain_name f)) = Inr None"
    from flat_field_step_cases [OF conjunct1 [OF a]] conjunct2 [OF a]
    show ?thesis by auto
  next
    assume a: "snd (subtype_field_step dl s sfn stfn code st f) = Inr (Some (k, t)) \<and>
           snd (domain_tuple_for dl s f (subtype_domain_name (snd st) f)) = Inr None \<and>
           stfn \<noteq> Some (f_name f)"
    from subtype_field_step_cases [OF conjunct1 [OF a]] conjunct2 [OF a]
    show ?thesis by auto
  qed
  then obtain T where T: "field_type_to_pydantic_dict (f_type f) = Some T"
    and t: "t = plain_tuple f T s (field_max_length f)" by blast
  have "fi_max_length (snd t) = field_max_length f"
    unfolding t by (rule plain_tuple_max_length)
  then have ml: "fi_max_length (snd t) = (if f_type f = ''String'' then Some (f_length f) else None)"
    by (simp only: field_max_length_def)
  have ann: "f_type f = ''String'' \<or> f_type f = ''Text'' \<longrightarrow>
            fst t = Plain PyStr \<or> fst t = Optional (Plain PyStr)"
  proof
    assume "f_type f = ''String'' \<or> f_type f = ''Text''"
    from textual_type_is_str [OF this T] have "T = PyStr" .
    with plain_tuple_annotation [of f T s "field_max_length f"] t
    show "fst t = Plain PyStr \<or> fst t = Optional (Plain PyStr)" by simp
  qed
  from ml ann show ?thesis by (rule conjI)
qed

theorem length_bound_for_String_only_witness:
  "snd (flat_field_step example_domains True None (example_field ''NAME'' ''String'' 10 True False ''''))
     = Inr (Some (''NAME'', (Plain PyStr, Field NoDefault (Some 10) None None))) \<and>
   snd (domain_tuple_for example_domains True (example_field ''NAME'' ''String'' 10 True False '''')
          (flat_domain_name (example_field ''NAME'' ''String'' 10 True False ''''))) = Inr None \<and>
   fi_max_length (snd (Plain PyStr, Field NoDefault (Some 10) None None))
     = (if f_type (example_field ''NAME'' ''String'' 10 True False '''') = ''String''
        then Some (f_length (example_field ''NAME'' ''String'' 10 True False '''')) else None) \<and>
   f_type (example_field ''NAME'' ''String'' 10 True False '''') = ''String'' \<and>
   (fst (Plain PyStr, Field NoDefault (Some 10) None None) = Plain PyStr \<or>
    fst (Plain PyStr, Field NoDefault (Some 10) None None) = Optional (Plain PyStr))"
proof -
  let ?f = "example_field ''NAME'' ''String'' 10 True False ''''"
  let ?t = "(Plain PyStr, Field NoDefault (Some 10) None None)"
  have a: "snd (flat_field_step example_domains True None ?f) = Inr (Some (''NAME'', ?t))"
    by (simp add: ex_defs)
  have b: "snd (domain_tuple_for example_domains True ?f (flat_domain_name ?f)) = Inr None"
    by (simp add: domain_tuple_for_def flat_domain_name_def example_field_def)
  have c: "f_type ?f = ''String''" by (simp add: example_field_def)
  note r = length_bound_for_String_only [OF disjI1, OF conjI, OF a b]
  from r have d: "fi_max_length (snd ?t)
     = (if f_type ?f = ''String'' then Some (f_length ?f) else None)" by (rule conjunct1)
  from r c have e: "fst ?t = Plain PyStr \<or> fst ?t = Optional (Plain PyStr)" by blast
  from a b d c e show ?thesis by (intro conjI)
qed

section \<open>The subtype field\<close>

text \<open>
  Claim C2, evaluated at a table whose subtype field \<open>TYPE\<close> carries the coded-value
  domain \<open>TypeCodes\<close>, with the subtypes 1 and 2. Without a domain the field's pair in
  subtype 1 is the literal pinned to the code 1. With the domain, the loop body stores
  the domain's pair in both subtypes, the two-valued literal set, since the test for
  the subtype field is only reached when no domain pair was produced. The two models
  then claim the same discriminator values, the union cannot be built, and
  \<open>make_table_adapter\<close> returns \<open>None\<close>.
\<close>

theorem discriminator_with_domain_is_not_pinned:
  "subtype_field_step example_domains True None (Some ''TYPE'') (IntV 1) (Some (IntV 1), None)
       (example_field ''TYPE'' ''Integer'' 4 True False '''')
     = ([], Inr (Some (''TYPE'', (Literal [IntV 1], Field (DefaultValue (IntV 1)) None None None)))) \<and>
   subtype_field_step example_domains True None (Some ''TYPE'') (IntV 1) (Some (IntV 1), None)
       (example_field ''TYPE'' ''Integer'' 4 True False ''TypeCodes'')
     = ([], Inr (Some (''TYPE'', (Literal [IntV 1, IntV 2], Field NoDefault None None None)))) \<and>
   subtype_field_step example_domains True None (Some ''TYPE'') (IntV 2) (Some (IntV 2), None)
       (example_field ''TYPE'' ''Integer'' 4 True False ''TypeCodes'')
     = ([], Inr (Some (''TYPE'', (Literal [IntV 1, IntV 2], Field NoDefault None None None)))) \<and>
   make_table_adapter (table_world example_domains zoned_table zoned_subtypes) parcels_path True
     = ([LogError TypeError], None)"
proof (intro conjI)
  show "subtype_field_step example_domains True None (Some ''TYPE'') (IntV 1) (Some (IntV 1), None)
       (example_field ''TYPE'' ''Integer'' 4 True False '''')
     = ([], Inr (Some (''TYPE'', (Literal [IntV 1], Field (DefaultValue (IntV 1)) None None None))))"
    by (simp add: ex_defs)
  show "subtype_field_step example_domains True None (Some ''TYPE'') (IntV 1) (Some (IntV 1), None)
       (example_field ''TYPE'' ''Integer'' 4 True False ''TypeCodes'')
     = ([], Inr (Some (''TYPE'', (Literal [IntV 1, IntV 2], Field NoDefault None None None))))"
    by (simp add: ex_defs)
  show "subtype_field_step example_domains True None (Some ''TYPE'') (IntV 2) (Some (IntV 2), None)
       (example_field ''TYPE'' ''Integer'' 4 True False ''TypeCodes'')
     = ([], Inr (Some (''TYPE'', (Literal [IntV 1, IntV 2], Field NoDefault None None None))))"
    by (simp add: ex_defs)
  have p: "basename parcels_path = ''parcels''" by (simp add: basename_def parcels_path_def)
  have f: "find (\<lambda>n. casefold n = casefold (subtypeFieldName zoned_table))
             (map f_name (desc_fields zoned_table)) = Some ''TYPE''"
    by (simp add: zoned_table_def example_field_def casefold_def casefold_char_def)
  have s: "shapeFieldName zoned_table = None" "subtypeFieldName zoned_table \<noteq> ''''"
    by (simp_all add: zoned_table_def)
  show "make_table_adapter (table_world example_domains zoned_table zoned_subtypes) parcels_path True
     = ([LogError TypeError], None)"
    by (simp add: make_table_adapter_def make_table_adapter_try_def table_world_def p f s
          zoned_models discriminated_union_def discriminator_values_def del: find.simps)
qed

text \<open>
  Claim C10. Inside a subtype, the (default value, domain) pairs are matched with the
  table's fields by position: pair number \<open>i\<close> of the zip is the \<open>i\<close>-th value of
  \<open>FieldValues\<close>, in iteration order, with the \<open>i\<close>-th field, up to the shorter of
  the two; the keys of \<open>FieldValues\<close> are never read, so two dictionaries with the
  same values in the same order give the same model, whatever their keys.
\<close>

theorem subtype_pairing_is_positional:
  "length (st_fld_zip sd flds) = min (length (st_FieldValues sd)) (length flds) \<and>
   (\<forall>i < length (st_fld_zip sd flds).
      st_fld_zip sd flds ! i = (snd (st_FieldValues sd ! i), flds ! i)) \<and>
   (map snd (st_FieldValues sd) = map snd (st_FieldValues sd') \<and> st_Name sd = st_Name sd' \<longrightarrow>
      subtype_model tn dl s sfn stfn flds (code, sd) =
      subtype_model tn dl s sfn stfn flds (code, sd'))"
proof (intro conjI allI impI)
  show "length (st_fld_zip sd flds) = min (length (st_FieldValues sd)) (length flds)"
    by (simp add: st_fld_zip_def)
next
  fix i assume "i < length (st_fld_zip sd flds)"
  then show "st_fld_zip sd flds ! i = (snd (st_FieldValues sd ! i), flds ! i)"
    by (simp add: st_fld_zip_def)
next
  assume a: "map snd (st_FieldValues sd) = map snd (st_FieldValues sd') \<and> st_Name sd = st_Name sd'"
  then have "st_fld_zip sd flds = st_fld_zip sd' flds" by (simp add: st_fld_zip_def)
  with a show "subtype_model tn dl s sfn stfn flds (code, sd) =
      subtype_model tn dl s sfn stfn flds (code, sd')"
    by (simp add: subtype_model_def)
qed

theorem subtype_pairing_is_positional_witness:
  "(0::nat) < length (st_fld_zip swapped_subtype two_fields) \<and>
   st_fld_zip swapped_subtype two_fields ! 0
     = (snd (st_FieldValues swapped_subtype ! 0), two_fields ! 0) \<and>
   fst (st_FieldValues swapped_subtype ! 0) = ''COVER'' \<and>
   f_name (two_fields ! 0) = ''TYPE'' \<and>
   map snd (st_FieldValues swapped_subtype) = map snd (st_FieldValues renamed_subtype) \<and>
   st_Name swapped_subtype = st_Name renamed_subtype \<and>
   subtype_model ''parcels'' example_domains True None (Some ''TYPE'') two_fields
       (IntV 1, swapped_subtype)
     = subtype_model ''parcels'' example_domains True None (Some ''TYPE'') two_fields
       (IntV 1, renamed_subtype) \<and>
   subtype_model ''parcels'' example_domains True None (Some ''TYPE'') two_fields
       (IntV 1, renamed_subtype)
     = ([], Inr (Model ''parcels-Residential''
          [(''TYPE'', (Plain PyInt, Field NoDefault None (Some (NInt 0)) (Some (NInt 100)))),
           (''COVER'', (Optional (Plain PyInt),
              Field DefaultFactoryNone None (Some (NInt (-2147483648))) (Some (NInt 2147483647))))]))"
proof -
  note r = subtype_pairing_is_positional [where sd = swapped_subtype and sd' = renamed_subtype
             and flds = two_fields and tn = "''parcels''" and dl = example_domains and s = True
             and sfn = None and stfn = "Some ''TYPE''" and code = "IntV 1"]
  have len: "length (st_fld_zip swapped_subtype two_fields) = 2"
    by (simp add: st_fld_zip_def swapped_subtype_def two_fields_def)
  then have a: "(0::nat) < length (st_fld_zip swapped_subtype two_fields)" by simp
  from r a have b: "st_fld_zip swapped_subtype two_fields ! 0
     = (snd (st_FieldValues swapped_subtype ! 0), two_fields ! 0)" by blast
  have c: "fst (st_FieldValues swapped_subtype ! 0) = ''COVER''"
    by (simp add: swapped_subtype_def)
  have d: "f_name (two_fields ! 0) = ''TYPE''" by (simp add: two_fields_def example_field_def)
  have e: "map snd (st_FieldValues swapped_subtype) = map snd (st_FieldValues renamed_subtype)"
    by (simp add: swapped_subtype_def renamed_subtype_def)
  have f: "st_Name swapped_subtype = st_Name renamed_subtype"
    by (simp add: swapped_subtype_def renamed_subtype_def)
  from r e f have g: "subtype_model ''parcels'' example_domains True None (Some ''TYPE'') two_fields
       (IntV 1, swapped_subtype)
     = subtype_model ''parcels'' example_domains True None (Some ''TYPE'') two_fields
       (IntV 1, renamed_subtype)" by blast
  have h: "subtype_model ''parcels'' example_domains True None (Some ''TYPE'') two_fields
       (IntV 1, renamed_subtype)
     = ([], Inr (Model ''parcels-Residential''
          [(''TYPE'', (Plain PyInt, Field NoDefault None (Some (NInt 0)) (Some (NInt 100)))),
           (''COVER'', (Optional (Plain PyInt),
              Field DefaultFactoryNone None (Some (NInt (-2147483648))) (Some (NInt 2147483647))))]))"
    by (simp add: run_defs renamed_subtype_def two_fields_def ex_defs)
  from a b c d e f g h show ?thesis by (intro conjI)
qed

end
